theory Spec2Isabelle
  imports Main
begin

section \<open>JavaScript values\<close>

text \<open>
  The components are JavaScript classes over the DOM. DOM elements are identified by
  values of type \<open>elem\<close>: \<open>El n\<close> is an element of the page or of a component, the other
  constructors are the elements that BaseOverlay.js creates itself (the backdrop and the two
  document-level tab capture elements). A leading underscore of a JavaScript property
  (\<open>this._tracking\<close>) is written \<open>u_\<close> (\<open>u_tracking\<close>), since an Isabelle name starts
  with a letter.
\<close>

datatype elem = El nat | BackdropEl | TopTabCaptureEl | BottomTabCaptureEl

text \<open>
  JavaScript values as far as the modelled functions tell them apart. Numbers are the
  integer-valued ones; \<open>Object s\<close> is an object that is no element, with \<open>s\<close> what its
  \<open>toString\<close> returns.
\<close>

datatype js_value =
    Undefined
  | Null
  | Boolean bool
  | Number int
  | String string
  | Element elem
  | Object string

datatype js_error =
    TypeError
  | ReferenceError
  | InvalidCharacterError
  | Error string
  | NotAnHTMLElement string
  | UnexpectedTagName string string string

text \<open>Truthiness of an attribute value or string property that may be missing.\<close>

definition truthy_str :: "string option \<Rightarrow> bool" where
  "truthy_str v = (case v of None \<Rightarrow> False | Some s \<Rightarrow> s \<noteq> [])"

text \<open>\<open>a || b\<close> on such values, where \<open>b\<close> is a string.\<close>

definition or_str :: "string option \<Rightarrow> string \<Rightarrow> string" where
  "or_str a b = (case a of None \<Rightarrow> b | Some s \<Rightarrow> if s \<noteq> [] then s else b)"

text \<open>Truthiness of a value, \<open>a || b\<close> and \<open>typeof v === 'boolean'\<close>.\<close>

fun js_truthy :: "js_value \<Rightarrow> bool" where
  "js_truthy Undefined = False"
| "js_truthy Null = False"
| "js_truthy (Boolean b) = b"
| "js_truthy (Number n) = (n \<noteq> 0)"
| "js_truthy (String s) = (s \<noteq> [])"
| "js_truthy (Element e) = True"
| "js_truthy (Object s) = True"

definition js_or :: "js_value \<Rightarrow> js_value \<Rightarrow> js_value" where
  "js_or a b = (if js_truthy a then a else b)"

definition js_and :: "js_value \<Rightarrow> js_value \<Rightarrow> js_value" where
  "js_and a b = (if js_truthy a then b else a)"

text \<open>Decimal digits of a number, as \<open>String(n)\<close> and \<open>Array.prototype.toString\<close> print it.\<close>

definition digit_char :: "nat \<Rightarrow> char" where
  "digit_char d = ''0123456789'' ! d"

fun string_of_nat :: "nat \<Rightarrow> string" where
  "string_of_nat n =
     (if n < 10 then [digit_char n] else string_of_nat (n div 10) @ [digit_char (n mod 10)])"

declare string_of_nat.simps [simp del]

definition string_of_int :: "int \<Rightarrow> string" where
  "string_of_int i = (if i < 0 then CHR ''-'' # string_of_nat (nat (- i)) else string_of_nat (nat i))"

text \<open>
  \<open>String(value)\<close>. An element prints as \<open>[object HTMLElement]\<close>; the name of its
  interface is not modelled.
\<close>

fun js_String :: "js_value \<Rightarrow> string" where
  "js_String Undefined = ''undefined''"
| "js_String Null = ''null''"
| "js_String (Boolean b) = (if b then ''true'' else ''false'')"
| "js_String (Number n) = string_of_int n"
| "js_String (String s) = s"
| "js_String (Element e) = ''[object HTMLElement]''"
| "js_String (Object s) = s"

text \<open>\<open>String.prototype.toLowerCase\<close> and \<open>toUpperCase\<close>, on the ASCII letters.\<close>

definition upper_letters :: string where
  "upper_letters = ''ABCDEFGHIJKLMNOPQRSTUVWXYZ''"

definition lower_letters :: string where
  "lower_letters = ''abcdefghijklmnopqrstuvwxyz''"

definition lower_char :: "char \<Rightarrow> char" where
  "lower_char c = (case map_of (zip upper_letters lower_letters) c of None \<Rightarrow> c | Some l \<Rightarrow> l)"

definition upper_char :: "char \<Rightarrow> char" where
  "upper_char c = (case map_of (zip lower_letters upper_letters) c of None \<Rightarrow> c | Some l \<Rightarrow> l)"

definition toLowerCase :: "string \<Rightarrow> string" where
  "toLowerCase s = map lower_char s"

definition toUpperCase :: "string \<Rightarrow> string" where
  "toUpperCase s = map upper_char s"

section \<open>BaseOverlay.js: the overlay stack, the backdrop and aria-hidden\<close>

text \<open>
  An entry of \<open>overlayStack\<close>: the object \<open>{instance, zIndex, backdrop}\<close>. A missing
  \<open>backdrop\<close> property is falsy and is \<open>False\<close> here. An entry is on the stack only
  after \<open>push\<close> gave it a \<open>zIndex\<close>. The z-index is an integer: the wrap of JavaScript
  numbers beyond \<open>2^53\<close> is not modelled.
\<close>

record overlay =
  inst :: elem
  zIndex :: int
  backdrop :: bool

text \<open>The backdrop element, once created: its \<open>style.zIndex\<close> and its \<open>_isOpen\<close> flag.\<close>

record backdrop_el =
  styleZ :: int
  isOpen :: bool

text \<open>
  The module state of BaseOverlay.js together with the part of the document and of the
  overlay instances that its functions read and write:
  \<^item> \<open>overlayStack\<close> and \<open>backdropEl\<close> (\<open>None\<close> while the backdrop was never created);
  \<^item> \<open>bodyChildren\<close>, the element children of \<open>document.body\<close> in order, and
    \<open>contains a b\<close>, the answer of \<open>a.contains(b)\<close>;
  \<^item> per element the \<open>aria-hidden\<close> attribute, the \<open>_previousAriaHidden\<close> property and
    \<open>style.zIndex\<close>;
  \<^item> per overlay instance \<open>_requestedBackdrop\<close>, \<open>_showBackdropOnAttached\<close>, whether it
    has a \<open>parentNode\<close> and whether its \<open>trapFocus\<close> is \<open>trapFocus.ON\<close>;
  \<^item> whether the document-level tab capture elements exist, and their \<open>style.display\<close>;
  \<^item> whether \<open>document.body\<close> carries the class \<open>u-coral-noscroll\<close>.
  The animation of the backdrop (the class \<open>is-open\<close> and \<open>display\<close>, set from
  \<open>requestAnimationFrame\<close> and a timeout) and event listeners are not part of the state.
\<close>

record page =
  overlayStack :: "overlay list"
  backdropEl :: "backdrop_el option"
  bodyChildren :: "elem list"
  contains :: "elem \<Rightarrow> elem \<Rightarrow> bool"
  ariaHidden :: "elem \<Rightarrow> string option"
  previousAriaHidden :: "elem \<Rightarrow> string option"
  styleZIndex :: "elem \<Rightarrow> int option"
  requestedBackdrop :: "elem \<Rightarrow> bool"
  showBackdropOnAttached :: "elem \<Rightarrow> bool"
  hasParentNode :: "elem \<Rightarrow> bool"
  trapFocusOn :: "elem \<Rightarrow> bool"
  tabCaptureEls :: bool
  tabCaptureDisplay :: string
  noscroll :: bool

definition startZIndex :: int where
  "startZIndex = 10000"

subsection \<open>aria-hidden on the children of the body\<close>

definition setAriaHidden :: "elem \<Rightarrow> string \<Rightarrow> page \<Rightarrow> page" where
  "setAriaHidden e v s = s\<lparr>ariaHidden := (ariaHidden s)(e := Some v)\<rparr>"

text \<open>
  The body of the loop of \<open>hideEverythingBut\<close>, for one child. \<open>child.contains\<close> is a
  method of every element, so the test \<open>child.contains &&\<close> is always true.
\<close>

definition hideChild :: "elem \<Rightarrow> elem \<Rightarrow> page \<Rightarrow> page" where
  "hideChild instance child s =
     (if child \<noteq> instance \<and> \<not> contains s child instance then
        (let currentAriaHidden = ariaHidden s child in
         if truthy_str currentAriaHidden then
           (let s1 = s\<lparr>previousAriaHidden := (previousAriaHidden s)
                        (child := Some (or_str (previousAriaHidden s child) (the currentAriaHidden)))\<rparr>
            in if currentAriaHidden = Some ''true'' then s1
               else setAriaHidden child ''true'' s1)
         else
           setAriaHidden child ''true''
             (s\<lparr>previousAriaHidden := (previousAriaHidden s)(child := Some ''false'')\<rparr>))
      else s)"

definition hideEverythingBut :: "elem \<Rightarrow> page \<Rightarrow> page" where
  "hideEverythingBut instance s =
     setAriaHidden instance ''false'' (fold (hideChild instance) (bodyChildren s) s)"

definition showChild :: "elem \<Rightarrow> page \<Rightarrow> page" where
  "showChild child s = setAriaHidden child (or_str (previousAriaHidden s child) ''false'') s"

definition showEverything :: "page \<Rightarrow> page" where
  "showEverything s = fold showChild (bodyChildren s) s"

subsection \<open>OverlayManager\<close>

text \<open>\<open>indexOf\<close> returns \<open>None\<close> where the source returns \<open>-1\<close>.\<close>

fun indexOfFrom :: "nat \<Rightarrow> elem \<Rightarrow> overlay list \<Rightarrow> nat option" where
  "indexOfFrom i instance [] = None"
| "indexOfFrom i instance (ov # rest) =
     (if inst ov = instance then Some i else indexOfFrom (Suc i) instance rest)"

definition indexOf :: "elem \<Rightarrow> page \<Rightarrow> nat option" where
  "indexOf instance s = indexOfFrom 0 instance (overlayStack s)"

text \<open>\<open>splice(index, 1)\<close> on a list.\<close>

definition splice1 :: "nat \<Rightarrow> 'a list \<Rightarrow> 'a list" where
  "splice1 index xs = take index xs @ drop (Suc index) xs"

text \<open>\<open>pop\<close> returns the removed entry (\<open>None\<close> for \<open>null\<close>) and the new state.\<close>

definition pop :: "elem \<Rightarrow> page \<Rightarrow> overlay option \<times> page" where
  "pop instance s =
     (case indexOf instance s of
        None \<Rightarrow> (None, s)
      | Some index \<Rightarrow>
          (Some (overlayStack s ! index),
           s\<lparr>overlayStack := splice1 index (overlayStack s)\<rparr>))"

definition get_overlay :: "elem \<Rightarrow> page \<Rightarrow> overlay option" where
  "get_overlay instance s =
     (case indexOf instance s of
        None \<Rightarrow> None
      | Some index \<Rightarrow> Some (overlayStack s ! index))"

definition top_overlay :: "page \<Rightarrow> overlay option" where
  "top_overlay s =
     (if length (overlayStack s) = 0 then None
      else Some (overlayStack s ! (length (overlayStack s) - 1)))"

definition getHighestZIndex :: "page \<Rightarrow> int" where
  "getHighestZIndex s =
     (case top_overlay s of None \<Rightarrow> startZIndex | Some ov \<Rightarrow> zIndex ov)"

text \<open>
  A function that may throw after it has changed the state returns what the call returns
  or throws, paired with the state it leaves behind.

  \<open>doRepositionBackdrop\<close>: the loop runs from the top of the stack down and stops at the
  first entry with \<open>backdrop\<close>, that is at the first such entry of the reversed stack.
  Writing \<open>backdropEl.style\<close> while \<open>backdropEl\<close> is undefined is a TypeError.
\<close>

definition doRepositionBackdrop :: "page \<Rightarrow> (js_error + unit) \<times> page" where
  "doRepositionBackdrop s =
     (case top_overlay s of
        None \<Rightarrow> (Inr (), s)
      | Some topOv \<Rightarrow>
          (case find backdrop (rev (overlayStack s)) of
             None \<Rightarrow> (Inr (), hideEverythingBut (inst topOv) s)
           | Some ov \<Rightarrow>
               (case backdropEl s of
                  None \<Rightarrow> (Inl TypeError, s)
                | Some b \<Rightarrow>
                    (Inr (), hideEverythingBut (inst topOv)
                          (s\<lparr>backdropEl := Some (b\<lparr>styleZ := zIndex ov - 1\<rparr>)\<rparr>)))))"

text \<open>
  \<open>push\<close>: \<open>this.pop(instance) || {instance}\<close> is the popped entry, or a new one whose
  \<open>zIndex\<close> is assigned two lines later. When \<open>doRepositionBackdrop\<close> throws, the entry is
  on the stack already.
\<close>

definition push :: "elem \<Rightarrow> page \<Rightarrow> (js_error + overlay) \<times> page" where
  "push instance s =
     (let (popped, s1) = pop instance s;
          ov0 = (case popped of
                  Some e \<Rightarrow> e
                | None \<Rightarrow> \<lparr>inst = instance, zIndex = 0, backdrop = False\<rparr>);
          z = getHighestZIndex s1 + 10;
          ov = ov0\<lparr>zIndex := z\<rparr>;
          s2 = s1\<lparr>styleZIndex := (styleZIndex s1)(instance := Some z)\<rparr>;
          s3 = s2\<lparr>overlayStack := overlayStack s2 @ [ov]\<rparr>
      in if backdrop ov then
           (case doRepositionBackdrop s3 of
              (Inl e, s4) \<Rightarrow> (Inl e, s4)
            | (Inr u, s4) \<Rightarrow> (Inr ov, s4))
         else (Inr ov, s3))"

subsection \<open>The document-level tab capture elements\<close>

text \<open>
  \<open>createDocumentTabCaptureEls\<close>: the first call creates the two elements, puts one
  before the first child of the body and appends the other; a later call moves them back
  to the two ends when they are not there. \<open>insertBefore\<close> and \<open>appendChild\<close> move an
  element that is a child already.
\<close>

definition createDocumentTabCaptureEls :: "page \<Rightarrow> page" where
  "createDocumentTabCaptureEls s =
     (let s1 =
        (if \<not> tabCaptureEls s then
           s\<lparr>bodyChildren := TopTabCaptureEl # bodyChildren s @ [BottomTabCaptureEl],
             tabCaptureEls := True\<rparr>
         else
           (let s2 = (if (case bodyChildren s of [] \<Rightarrow> True | c # cs \<Rightarrow> c \<noteq> TopTabCaptureEl)
                      then s\<lparr>bodyChildren := TopTabCaptureEl # removeAll TopTabCaptureEl (bodyChildren s)\<rparr>
                      else s)
            in if (bodyChildren s2 = [] \<or> last (bodyChildren s2) \<noteq> BottomTabCaptureEl)
               then s2\<lparr>bodyChildren := removeAll BottomTabCaptureEl (bodyChildren s2) @ [BottomTabCaptureEl]\<rparr>
               else s2))
      in s1\<lparr>tabCaptureDisplay := ''inline''\<rparr>)"

definition hideDocumentTabCaptureEls :: "page \<Rightarrow> page" where
  "hideDocumentTabCaptureEls s =
     (if tabCaptureEls s then s\<lparr>tabCaptureDisplay := ''none''\<rparr> else s)"

subsection \<open>The backdrop\<close>

text \<open>
  \<open>doBackdropHide\<close>: the class is removed from the body before \<open>backdropEl._isOpen\<close> is
  written, which is a TypeError while there is no backdrop element.
\<close>

definition doBackdropHide :: "page \<Rightarrow> (js_error + unit) \<times> page" where
  "doBackdropHide s =
     (let s1 = s\<lparr>noscroll := False\<rparr>
      in case backdropEl s1 of
           None \<Rightarrow> (Inl TypeError, s1)
         | Some b \<Rightarrow> (Inr (), showEverything (s1\<lparr>backdropEl := Some (b\<lparr>isOpen := False\<rparr>)\<rparr>)))"

definition hideOrRepositionBackdrop :: "page \<Rightarrow> (js_error + unit) \<times> page" where
  "hideOrRepositionBackdrop s =
     (case backdropEl s of
        None \<Rightarrow> (Inr (), s)
      | Some b \<Rightarrow>
          if \<not> isOpen b then (Inr (), s)
          else
            (let keepBackdrop = list_ex (\<lambda>ov. backdrop ov) (overlayStack s)
             in case (if \<not> keepBackdrop then doBackdropHide s else doRepositionBackdrop s) of
                  (Inl e, s1) \<Rightarrow> (Inl e, s1)
                | (Inr u, s1) \<Rightarrow>
                    (case top_overlay s1 of
                       None \<Rightarrow> (Inr (), hideDocumentTabCaptureEls s1)
                     | Some topOv \<Rightarrow>
                         if \<not> (trapFocusOn s1 (inst topOv) \<and> requestedBackdrop s1 (inst topOv))
                         then (Inr (), hideDocumentTabCaptureEls s1)
                         else (Inr (), createDocumentTabCaptureEls s1))))"

text \<open>
  \<open>doBackdropShow\<close> creates the backdrop element on its first call and appends it to the
  body.
\<close>

definition doBackdropShow :: "int \<Rightarrow> elem \<Rightarrow> page \<Rightarrow> page" where
  "doBackdropShow z instance s =
     (let s1 = s\<lparr>noscroll := True\<rparr>;
          s2 = (case backdropEl s1 of
                  None \<Rightarrow> s1\<lparr>backdropEl := Some \<lparr>styleZ = z - 1, isOpen = True\<rparr>,
                              bodyChildren := bodyChildren s1 @ [BackdropEl]\<rparr>
                | Some b \<Rightarrow> s1\<lparr>backdropEl := Some (b\<lparr>styleZ := z - 1, isOpen := True\<rparr>)\<rparr>)
      in hideEverythingBut instance s2)"

subsection \<open>The methods of an overlay instance\<close>

definition u_pushOverlay :: "elem \<Rightarrow> page \<Rightarrow> (js_error + unit) \<times> page" where
  "u_pushOverlay self s =
     (case push self s of
        (Inl e, s1) \<Rightarrow> (Inl e, s1)
      | (Inr ov, s1) \<Rightarrow> (Inr (), s1))"

definition u_popOverlay :: "elem \<Rightarrow> page \<Rightarrow> (js_error + unit) \<times> page" where
  "u_popOverlay self s = hideOrRepositionBackdrop (snd (pop self s))"

text \<open>\<open>overlay.backdrop = v\<close> writes the entry that is on the stack.\<close>

definition setBackdropAt :: "nat \<Rightarrow> bool \<Rightarrow> page \<Rightarrow> page" where
  "setBackdropAt index v s =
     s\<lparr>overlayStack := (overlayStack s)[index := (overlayStack s ! index)\<lparr>backdrop := v\<rparr>]\<rparr>"

definition u_showBackdrop :: "elem \<Rightarrow> page \<Rightarrow> page" where
  "u_showBackdrop self s =
     (let s1 = (case indexOf self s of
                  None \<Rightarrow> s
                | Some index \<Rightarrow>
                    doBackdropShow (zIndex (overlayStack s ! index)) self
                      (setBackdropAt index True s));
          s2 = s1\<lparr>requestedBackdrop := (requestedBackdrop s1)(self := True)\<rparr>;
          s3 = (if \<not> hasParentNode s2 self
                then s2\<lparr>showBackdropOnAttached := (showBackdropOnAttached s2)(self := True)\<rparr>
                else s2)
      in if trapFocusOn s3 self then createDocumentTabCaptureEls s3 else s3)"

definition u_hideBackdrop :: "elem \<Rightarrow> page \<Rightarrow> (js_error + unit) \<times> page" where
  "u_hideBackdrop self s =
     (case (case indexOf self s of
              None \<Rightarrow> (Inr (), s)
            | Some index \<Rightarrow> hideOrRepositionBackdrop (setBackdropAt index False s)) of
        (Inl e, s1) \<Rightarrow> (Inl e, s1)
      | (Inr u, s1) \<Rightarrow> (Inr (), s1\<lparr>requestedBackdrop := (requestedBackdrop s1)(self := False)\<rparr>))"

text \<open>The state of a page on which no overlay was ever shown.\<close>

definition initialPage :: "elem list \<Rightarrow> page" where
  "initialPage children =
     \<lparr>overlayStack = [], backdropEl = None, bodyChildren = children,
      contains = (\<lambda>a b. a = b), ariaHidden = (\<lambda>e. None),
      previousAriaHidden = (\<lambda>e. None), styleZIndex = (\<lambda>e. None),
      requestedBackdrop = (\<lambda>e. False), showBackdropOnAttached = (\<lambda>e. False),
      hasParentNode = (\<lambda>e. True), trapFocusOn = (\<lambda>e. False),
      tabCaptureEls = False, tabCaptureDisplay = [], noscroll = False\<rparr>"

section \<open>coral-utils and the enumerations\<close>

text \<open>
  The functions of \<open>coral-utils\<close> that the setters call (\<open>transform.toLowerCase\<close>,
  \<open>transform.toUpperCase\<close>, \<open>transform.string\<close>, \<open>validate.enumeration\<close>,
  \<open>validate.valueMustChange\<close>) are not among the sources. The setters take them as a
  parameter, of which nothing is assumed; \<open>validate.enumeration\<close> receives the
  enumeration as the list of its values.
\<close>

record utils =
  transform_toLowerCase :: "js_value \<Rightarrow> js_value"
  transform_toUpperCase :: "js_value \<Rightarrow> js_value"
  transform_string :: "js_value \<Rightarrow> string"
  validate_enumeration :: "js_value list \<Rightarrow> js_value \<Rightarrow> bool"
  validate_valueMustChange :: "js_value \<Rightarrow> js_value \<Rightarrow> bool"



section \<open>BaseComponent.js\<close>

text \<open>
  A listener stored in \<open>_globalEvents\<close> or \<open>_globalKeys\<close>; the bound listener function
  is a number that identifies it.
\<close>

record global_event =
  eventName :: string
  selector :: "string option"
  listener :: nat
  isCapture :: bool

record global_key =
  keyCombo :: string
  keySelector :: "string option"
  keyListener :: nat

text \<open>
  Modelled from the spec: the class \<open>Keys\<close> of \<open>coral-utils\<close>, which is missing from
  the sources. A custom element responds to its key listeners while they are attached:
  an instance holds the listeners given to \<open>on\<close> until \<open>off\<close> removes them, and
  \<open>init(true)\<close> and \<open>destroy(true)\<close> attach and detach its global handlers. A new
  instance has no listener and is initialised.
\<close>

record keys_instance =
  keyListeners :: "global_key list"
  keysInitialised :: bool

definition new_Keys :: keys_instance where
  "new_Keys = \<lparr>keyListeners = [], keysInitialised = True\<rparr>"

definition keys_on :: "global_key \<Rightarrow> keys_instance \<Rightarrow> keys_instance" where
  "keys_on k ki = ki\<lparr>keyListeners := keyListeners ki @ [k]\<rparr>"

definition keys_off :: "global_key \<Rightarrow> keys_instance \<Rightarrow> keys_instance" where
  "keys_off k ki =
     ki\<lparr>keyListeners :=
          filter (\<lambda>x. \<not> (keyCombo x = keyCombo k \<and> keyListener x = keyListener k \<and>
                           (keySelector k = None \<or> keySelector x = keySelector k)))
            (keyListeners ki)\<rparr>"

text \<open>
  The module-level \<open>events\<close> object is a Vent instance on the window (an external
  library): \<open>on\<close> adds a listener, \<open>off\<close> removes every listener that matches, a
  missing selector matching all.
\<close>

definition vent_on :: "global_event \<Rightarrow> global_event list \<Rightarrow> global_event list" where
  "vent_on e es = es @ [e]"

definition vent_off :: "global_event \<Rightarrow> global_event list \<Rightarrow> global_event list" where
  "vent_off e es =
     filter (\<lambda>x. \<not> (eventName x = eventName e \<and> listener x = listener e \<and>
                      isCapture x = isCapture e \<and>
                      (selector e = None \<or> selector x = selector e))) es"

text \<open>
  A component, with the part of its surroundings that the methods of BaseComponent read
  and write: the listeners on \<open>events\<close>, and of the DOM the parent and the children of
  each node, the tag name of each element and its \<open>_contentZoned\<close> flag. The classes
  that extend BaseComponent extend this record.
\<close>

record component =
  self :: elem
  attributes :: "string \<rightharpoonup> string"
  classList :: "string list"
  u_reflectedAttribute :: bool
  u_tracking :: js_value
  u_elements :: "string \<rightharpoonup> js_value"
  u_globalEvents :: "global_event list option"
  u_globalKeys :: "global_key list option"
  u_keys :: "keys_instance option"
  u_disconnected :: "bool option"
  u_rendered :: bool
  events :: "global_event list"
  parentNode :: "elem \<rightharpoonup> elem"
  childNodes :: "elem \<Rightarrow> elem list"
  tagName :: "elem \<Rightarrow> string"
  u_contentZoned :: "elem \<Rightarrow> bool"

subsection \<open>Attribute reflection\<close>

text \<open>
  The names that \<open>setAttribute\<close> accepts are those of the production \<open>Name\<close> of XML,
  here on characters of one byte: a letter, \<open>:\<close> or \<open>_\<close>, followed by letters, digits,
  \<open>:\<close>, \<open>_\<close>, \<open>-\<close>, \<open>.\<close> and the middle dot. With any other name, the empty one for
  instance, \<open>setAttribute\<close> throws an InvalidCharacterError and writes nothing.
  \<open>removeAttribute\<close>, \<open>hasAttribute\<close> and \<open>getAttribute\<close> take any name. An element
  of an HTML document takes the name in ASCII lower case in all four; \<open>attributes\<close> maps
  the names in lower case to the values.
\<close>

definition isNameStartChar :: "char \<Rightarrow> bool" where
  "isNameStartChar ch =
     (let n = (of_char ch :: nat)
      in n = 58 \<or> (65 \<le> n \<and> n \<le> 90) \<or> n = 95 \<or> (97 \<le> n \<and> n \<le> 122) \<or>
         (192 \<le> n \<and> n \<le> 214) \<or> (216 \<le> n \<and> n \<le> 246) \<or> 248 \<le> n)"

definition isNameChar :: "char \<Rightarrow> bool" where
  "isNameChar ch =
     (let n = (of_char ch :: nat)
      in isNameStartChar ch \<or> n = 45 \<or> n = 46 \<or> (48 \<le> n \<and> n \<le> 57) \<or> n = 183)"

fun isName :: "string \<Rightarrow> bool" where
  "isName [] = False"
| "isName (ch # rest) = (isNameStartChar ch \<and> list_all isNameChar rest)"

definition setAttribute ::
  "string \<Rightarrow> string \<Rightarrow> 'a component_scheme \<Rightarrow> (js_error + unit) \<times> 'a component_scheme" where
  "setAttribute name v c =
     (if isName name
      then (Inr (), c\<lparr>attributes := (attributes c)(toLowerCase name \<mapsto> v)\<rparr>)
      else (Inl InvalidCharacterError, c))"

definition removeAttribute :: "string \<Rightarrow> 'a component_scheme \<Rightarrow> 'a component_scheme" where
  "removeAttribute name c = c\<lparr>attributes := (attributes c)(toLowerCase name := None)\<rparr>"

definition hasAttribute :: "string \<Rightarrow> 'a component_scheme \<Rightarrow> bool" where
  "hasAttribute name c = (attributes c (toLowerCase name) \<noteq> None)"

text \<open>\<open>getAttribute\<close> returns \<open>null\<close> for a missing attribute.\<close>

definition getAttribute :: "string \<Rightarrow> 'a component_scheme \<Rightarrow> js_value" where
  "getAttribute name c =
     (case attributes c (toLowerCase name) of None \<Rightarrow> Null | Some v \<Rightarrow> String v)"

text \<open>
  \<open>_reflectAttribute\<close>. The write of the attribute calls \<open>attributeChangedCallback\<close>,
  which does nothing while \<open>_reflectedAttribute\<close> is set; that is why the flag is set
  around the write. \<open>setAttribute\<close> stores \<open>String(value)\<close>. When \<open>setAttribute\<close>
  throws, the statement that clears the flag is not reached.
\<close>

definition u_reflectAttribute ::
  "string \<Rightarrow> js_value \<Rightarrow> 'a component_scheme \<Rightarrow> (js_error + unit) \<times> 'a component_scheme" where
  "u_reflectAttribute attributeName v c =
     (case v of
        Boolean b \<Rightarrow>
          if b \<and> \<not> hasAttribute attributeName c then
            (case setAttribute attributeName [] (c\<lparr>u_reflectedAttribute := True\<rparr>) of
               (Inl e, c1) \<Rightarrow> (Inl e, c1)
             | (Inr u, c1) \<Rightarrow> (Inr (), c1\<lparr>u_reflectedAttribute := False\<rparr>))
          else if \<not> b \<and> hasAttribute attributeName c then
            (Inr (), (removeAttribute attributeName (c\<lparr>u_reflectedAttribute := True\<rparr>))
                       \<lparr>u_reflectedAttribute := False\<rparr>)
          else (Inr (), c)
      | _ \<Rightarrow>
          if getAttribute attributeName c \<noteq> String (js_String v) then
            (case setAttribute attributeName (js_String v) (c\<lparr>u_reflectedAttribute := True\<rparr>) of
               (Inl e, c1) \<Rightarrow> (Inl e, c1)
             | (Inr u, c1) \<Rightarrow> (Inr (), c1\<lparr>u_reflectedAttribute := False\<rparr>))
          else (Inr (), c))"

subsection \<open>Content zones\<close>

text \<open>
  The DOM operations that \<open>_setContentZone\<close> calls. A node that is inserted leaves its
  old parent first. The hierarchy errors of the DOM (inserting an ancestor into its
  descendant) are not modelled.
\<close>

definition removeChild :: "elem \<Rightarrow> elem \<Rightarrow> 'a component_scheme \<Rightarrow> 'a component_scheme" where
  "removeChild parent node c =
     c\<lparr>childNodes := (childNodes c)(parent := removeAll node (childNodes c parent)),
       parentNode := (parentNode c)(node := None)\<rparr>"

definition detach :: "elem \<Rightarrow> 'a component_scheme \<Rightarrow> 'a component_scheme" where
  "detach node c = (case parentNode c node of None \<Rightarrow> c | Some p \<Rightarrow> removeChild p node c)"

definition appendChild :: "elem \<Rightarrow> elem \<Rightarrow> 'a component_scheme \<Rightarrow> 'a component_scheme" where
  "appendChild parent node c =
     (let c1 = detach node c
      in c1\<lparr>childNodes := (childNodes c1)(parent := childNodes c1 parent @ [node]),
            parentNode := (parentNode c1)(node \<mapsto> parent)\<rparr>)"

definition replaceChild ::
  "elem \<Rightarrow> elem \<Rightarrow> elem \<Rightarrow> 'a component_scheme \<Rightarrow> 'a component_scheme" where
  "replaceChild parent newChild oldChild c =
     (if newChild = oldChild then c
      else
        (let c1 = detach newChild c
         in c1\<lparr>childNodes := (childNodes c1)
                   (parent := map (\<lambda>n. if n = oldChild then newChild else n) (childNodes c1 parent)),
               parentNode := (parentNode c1)(oldChild := None, newChild \<mapsto> parent)\<rparr>))"

text \<open>
  The options of \<open>_setContentZone\<close>: \<open>handle\<close>, \<open>tagName\<close>, \<open>set\<close> and \<open>insert\<close>; a
  missing option is \<open>None\<close>. The two callbacks are functions on the component.
\<close>

record 'c content_zone_options =
  opt_handle :: string
  opt_tagName :: "string option"
  opt_set :: "(js_value \<Rightarrow> 'c \<Rightarrow> 'c) option"
  opt_insert :: "(elem \<Rightarrow> 'c \<Rightarrow> 'c) option"

text \<open>\<open>oldNode && oldNode.parentNode\<close>: the old node, when it is an element with a parent.\<close>

definition oldNodeInDom :: "js_value option \<Rightarrow> 'a component_scheme \<Rightarrow> (elem \<times> elem) option" where
  "oldNodeInDom oldNode c =
     (case oldNode of
        Some (Element old) \<Rightarrow>
          (case parentNode c old of None \<Rightarrow> None | Some p \<Rightarrow> Some (old, p))
      | _ \<Rightarrow> None)"

definition removeOldNode :: "js_value option \<Rightarrow> 'a component_scheme \<Rightarrow> 'a component_scheme" where
  "removeOldNode oldNode c =
     (case oldNodeInDom oldNode c of None \<Rightarrow> c | Some (old, p) \<Rightarrow> removeChild p old c)"

text \<open>The end of \<open>_setContentZone\<close>: the handle is assigned and the setter invoked.\<close>

definition assignHandle ::
  "js_value \<Rightarrow> ('a component_scheme) content_zone_options \<Rightarrow> 'a component_scheme \<Rightarrow>
   'a component_scheme" where
  "assignHandle v options c =
     (let c1 = c\<lparr>u_elements := (u_elements c)(opt_handle options \<mapsto> v)\<rparr>
      in case opt_set options of None \<Rightarrow> c1 | Some additionalSetter \<Rightarrow> additionalSetter v c1)"

text \<open>
  \<open>_setContentZone\<close>. \<open>value instanceof HTMLElement\<close> holds of the values \<open>Element e\<close>.
  The two errors carry the property, and the second the tag name found and the one
  expected in upper case, as the messages do.
\<close>

definition u_setContentZone ::
  "string \<Rightarrow> js_value \<Rightarrow> ('a component_scheme) content_zone_options \<Rightarrow> 'a component_scheme \<Rightarrow>
   (js_error + unit) \<times> 'a component_scheme" where
  "u_setContentZone property v options c =
     (let expectedTagName = opt_tagName options in
      if js_truthy v then
        (case v of
           Element e \<Rightarrow>
             if truthy_str expectedTagName \<and> toLowerCase (tagName c e) \<noteq> the expectedTagName then
               (Inl (UnexpectedTagName property (tagName c e) (toUpperCase (the expectedTagName))), c)
             else
               (let oldNode = u_elements c (opt_handle options);
                    c1 = c\<lparr>u_contentZoned := (u_contentZoned c)(e := True)\<rparr>;
                    c2 = (case opt_insert options of
                            Some insertFn \<Rightarrow> insertFn e (removeOldNode oldNode c1)
                          | None \<Rightarrow>
                              (case oldNodeInDom oldNode c1 of
                                 Some (old, p) \<Rightarrow> replaceChild p e old c1
                               | None \<Rightarrow> appendChild (self c1) e c1))
                in (Inr (), assignHandle v options c2))
         | _ \<Rightarrow> (Inl (NotAnHTMLElement property), c))
      else
        (Inr (), assignHandle v options (removeOldNode (u_elements c (opt_handle options)) c)))"

subsection \<open>Global listeners and the lifecycle callbacks\<close>

text \<open>
  An entry of the event map \<open>self._events\<close>: its key as \<open>delegateEventSplitter\<close> splits
  it (\<open>match[1]\<close> and \<open>match[2]\<close>), and the listener that
  \<open>getListenerFromMethodNameOrFunction\<close> finds for its value, if any.
\<close>

record event_entry =
  entryName :: string
  entrySelector :: string
  entryListener :: "nat option"

text \<open>
  The body of the loop of \<open>delegateEvents\<close>. A global listener is stored in
  \<open>_globalKeys\<close> or \<open>_globalEvents\<close>; a key listener on the element itself creates the
  Keys instance if there is none. Resize listeners and the listeners on the element's own
  Vent instance are kept outside of the state of the model.
\<close>

definition delegateEvent ::
  "event_entry \<Rightarrow> 'a component_scheme \<Rightarrow> (js_error + unit) \<times> 'a component_scheme" where
  "delegateEvent entry c =
     (let name0 = entryName entry @ ''.CoralComponent'';
          sel = (if entrySelector entry = [] then None else Some (entrySelector entry))
      in case entryListener entry of
           None \<Rightarrow> (Inr (), c)
         | Some l \<Rightarrow>
             (let isGlobal = (take 7 name0 = ''global:'');
                  name1 = (if isGlobal then drop 7 name0 else name0);
                  isCapture' = (take 8 name1 = ''capture:'');
                  name2 = (if isCapture' then drop 8 name1 else name1);
                  isKey = (take 4 name2 = ''key:'')
              in if isKey \<and> isCapture'
                 then (Inl (Error ''Coral.Keys does not currently support listening to key events with capture''), c)
                 else
                   (let name3 = (if isKey then drop 4 name2 else name2);
                        isResize = (take 6 name3 = ''resize'')
                    in if isResize \<and> isCapture'
                       then (Inl (Error ''Coral.commons.addResizeListener does not currently support listening to resize event with capture''), c)
                       else if isGlobal then
                         (if isKey
                          then (Inr (),
                                c\<lparr>u_globalKeys :=
                                    Some ((case u_globalKeys c of None \<Rightarrow> [] | Some ks \<Rightarrow> ks) @
                                          [\<lparr>keyCombo = name3, keySelector = sel, keyListener = l\<rparr>])\<rparr>)
                          else (Inr (),
                                c\<lparr>u_globalEvents :=
                                    Some ((case u_globalEvents c of None \<Rightarrow> [] | Some es \<Rightarrow> es) @
                                          [\<lparr>eventName = name3, selector = sel, listener = l,
                                            isCapture = isCapture'\<rparr>])\<rparr>))
                       else if isKey then
                         (Inr (),
                          c\<lparr>u_keys :=
                              Some (keys_on \<lparr>keyCombo = name3, keySelector = sel, keyListener = l\<rparr>
                                      (case u_keys c of None \<Rightarrow> new_Keys | Some k \<Rightarrow> k))\<rparr>)
                       else (Inr (), c))))"

text \<open>The loop: a throw ends it, with the entries before it delegated.\<close>

fun delegateEvents ::
  "event_entry list \<Rightarrow> 'a component_scheme \<Rightarrow> (js_error + unit) \<times> 'a component_scheme" where
  "delegateEvents [] c = (Inr (), c)"
| "delegateEvents (entry # entries) c =
     (case delegateEvent entry c of
        (Inl e, c1) \<Rightarrow> (Inl e, c1)
      | (Inr u, c1) \<Rightarrow> delegateEvents entries c1)"

text \<open>
  \<open>delegateGlobalEvents\<close> and \<open>undelegateGlobalEvents\<close>. In both, \<open>keys\<close> is the
  local constant \<open>self._keys\<close>: calling \<open>keys.on\<close> or \<open>keys.off\<close> while the component
  has no Keys instance is a TypeError, thrown at the first stored key listener.
\<close>

definition delegateGlobalEvents ::
  "'a component_scheme \<Rightarrow> (js_error + unit) \<times> 'a component_scheme" where
  "delegateGlobalEvents c =
     (let keys = u_keys c;
          c1 = (case u_globalEvents c of
                  None \<Rightarrow> c
                | Some globalEvents \<Rightarrow> c\<lparr>events := fold vent_on globalEvents (events c)\<rparr>)
      in case (case u_globalKeys c1 of
                 None \<Rightarrow> (Inr (), c1)
               | Some globalKeys \<Rightarrow>
                   (case keys of
                      None \<Rightarrow> if globalKeys = [] then (Inr (), c1) else (Inl TypeError, c1)
                    | Some k \<Rightarrow> (Inr (), c1\<lparr>u_keys := Some (fold keys_on globalKeys k)\<rparr>))) of
           (Inl e, c2) \<Rightarrow> (Inl e, c2)
         | (Inr u, c2) \<Rightarrow>
             (case u_keys c2 of
                None \<Rightarrow> (Inr (), c2)
              | Some k \<Rightarrow> (Inr (), c2\<lparr>u_keys := Some (k\<lparr>keysInitialised := True\<rparr>)\<rparr>)))"

definition undelegateGlobalEvents ::
  "'a component_scheme \<Rightarrow> (js_error + unit) \<times> 'a component_scheme" where
  "undelegateGlobalEvents c =
     (let keys = u_keys c;
          c1 = (case u_globalEvents c of
                  None \<Rightarrow> c
                | Some globalEvents \<Rightarrow> c\<lparr>events := fold vent_off globalEvents (events c)\<rparr>)
      in case (case u_globalKeys c1 of
                 None \<Rightarrow> (Inr (), c1)
               | Some globalKeys \<Rightarrow>
                   (case keys of
                      None \<Rightarrow> if globalKeys = [] then (Inr (), c1) else (Inl TypeError, c1)
                    | Some k \<Rightarrow> (Inr (), c1\<lparr>u_keys := Some (fold keys_off globalKeys k)\<rparr>))) of
           (Inl e, c2) \<Rightarrow> (Inl e, c2)
         | (Inr u, c2) \<Rightarrow>
             (case u_keys c2 of
                None \<Rightarrow> (Inr (), c2)
              | Some k \<Rightarrow> (Inr (), c2\<lparr>u_keys := Some (k\<lparr>keysInitialised := False\<rparr>)\<rparr>)))"

text \<open>
  \<open>_delegateEvents(eventMap)\<close>; the argument is the entries of \<open>self._events\<close> once
  \<open>commons.extend\<close> has added the event map to it.
\<close>

definition u_delegateEvents ::
  "event_entry list \<Rightarrow> 'a component_scheme \<Rightarrow> (js_error + unit) \<times> 'a component_scheme" where
  "u_delegateEvents entries c =
     (case delegateEvents entries c of
        (Inl e, c1) \<Rightarrow> (Inl e, c1)
      | (Inr u, c1) \<Rightarrow> delegateGlobalEvents c1)"

definition render :: "'a component_scheme \<Rightarrow> 'a component_scheme" where
  "render c = c\<lparr>u_rendered := True\<rparr>"

definition connectedCallback ::
  "'a component_scheme \<Rightarrow> (js_error + unit) \<times> 'a component_scheme" where
  "connectedCallback c =
     (case (if u_disconnected c = Some True then delegateGlobalEvents c else (Inr (), c)) of
        (Inl e, c1) \<Rightarrow> (Inl e, c1)
      | (Inr u, c1) \<Rightarrow>
          (let c2 = c1\<lparr>u_disconnected := Some False\<rparr>
           in (Inr (), if \<not> u_rendered c2 then render c2 else c2)))"

definition disconnectedCallback ::
  "'a component_scheme \<Rightarrow> (js_error + unit) \<times> 'a component_scheme" where
  "disconnectedCallback c = undelegateGlobalEvents (c\<lparr>u_disconnected := Some True\<rparr>)"

subsection \<open>The tracking property and \<open>_updateProperty\<close>\<close>





text \<open>
  \<open>_updateProperty(handle, value, callback)\<close>. The property \<open>self[handle]\<close> is given by
  the function that reads it and the one that writes it; every caller passes a string as
  the handle, so the test on the handle never throws. The callback may throw: the
  property is written before it runs.
\<close>

definition u_updateProperty ::
  "utils \<Rightarrow> ('c \<Rightarrow> js_value) \<Rightarrow> (js_value \<Rightarrow> 'c \<Rightarrow> 'c) \<Rightarrow> js_value \<Rightarrow>
   (js_value \<Rightarrow> 'c \<Rightarrow> (js_error + unit) \<times> 'c) \<Rightarrow> 'c \<Rightarrow> (js_error + unit) \<times> 'c" where
  "u_updateProperty u getHandle putHandle v callback c =
     (if validate_valueMustChange u (getHandle c) v then callback v (putHandle v c)
      else (Inr (), c))"

section \<open>BaseButton.js: the variant and size properties\<close>

text \<open>
  BaseButton adds \<open>_variant\<close> and \<open>_size\<close>; \<open>labelClasses\<close> is the class list of the
  label element.
\<close>

record button = component +
  u_variant :: js_value
  u_size :: js_value
  labelClasses :: "elem \<Rightarrow> string list"

definition variant_DEFAULT :: js_value where "variant_DEFAULT = String ''default''"
definition variant_CUSTOM :: js_value where "variant_CUSTOM = String ''_custom''"
definition variant_ACTION :: js_value where "variant_ACTION = String ''action''"
definition variant_QUIET_ACTION :: js_value where "variant_QUIET_ACTION = String ''quietaction''"

definition variant_values :: "js_value list" where
  "variant_values =
     [String ''cta'', String ''primary'', String ''secondary'', String ''quiet'',
      String ''minimal'', String ''warning'', variant_ACTION, variant_QUIET_ACTION,
      String ''quietsecondary'', String ''quietwarning'', String ''overbackground'',
      variant_DEFAULT, variant_CUSTOM]"

definition CLASSNAME :: string where "CLASSNAME = ''_coral-Button''"
definition ACTION_CLASSNAME :: string where "ACTION_CLASSNAME = ''_coral-ActionButton''"

definition ALL_VARIANT_CLASSES :: "string list" where
  "ALL_VARIANT_CLASSES =
     [CLASSNAME @ ''--cta'', CLASSNAME @ ''--primary'', CLASSNAME @ ''--secondary'',
      CLASSNAME @ ''--warning'', CLASSNAME @ ''--quiet'', ACTION_CLASSNAME @ ''--quiet'',
      CLASSNAME @ ''--overBackground'']"

text \<open>\<open>VARIANT_MAP[value]\<close>; \<open>None\<close> where the object has no such key.\<close>

definition VARIANT_MAP :: "js_value \<Rightarrow> string list option" where
  "VARIANT_MAP v =
     (if v = String ''cta'' then Some [CLASSNAME, ALL_VARIANT_CLASSES ! 0]
      else if v = String ''primary'' then Some [CLASSNAME, ALL_VARIANT_CLASSES ! 0]
      else if v = String ''secondary'' then Some [CLASSNAME, ALL_VARIANT_CLASSES ! 2]
      else if v = String ''warning'' then Some [CLASSNAME, ALL_VARIANT_CLASSES ! 3]
      else if v = String ''quiet'' then Some [CLASSNAME, ALL_VARIANT_CLASSES ! 1, ALL_VARIANT_CLASSES ! 4]
      else if v = String ''minimal'' then Some [CLASSNAME, ALL_VARIANT_CLASSES ! 2, ALL_VARIANT_CLASSES ! 4]
      else if v = String ''default'' then Some [CLASSNAME, ALL_VARIANT_CLASSES ! 1]
      else if v = String ''action'' then Some [ACTION_CLASSNAME]
      else if v = String ''quietaction'' then Some [ACTION_CLASSNAME, ALL_VARIANT_CLASSES ! 5]
      else if v = String ''quietsecondary'' then Some [CLASSNAME, ALL_VARIANT_CLASSES ! 2, ALL_VARIANT_CLASSES ! 4]
      else if v = String ''quietwarning'' then Some [CLASSNAME, ALL_VARIANT_CLASSES ! 3, ALL_VARIANT_CLASSES ! 4]
      else if v = String ''overbackground'' then Some [CLASSNAME, ALL_VARIANT_CLASSES ! 6]
      else None)"



text \<open>\<open>classList.remove\<close> and \<open>classList.add\<close> on a list of class names.\<close>

definition tokens_remove :: "string list \<Rightarrow> string list \<Rightarrow> string list" where
  "tokens_remove names cl = filter (\<lambda>x. x \<notin> set names) cl"

definition tokens_add :: "string list \<Rightarrow> string list \<Rightarrow> string list" where
  "tokens_add names cl = cl @ filter (\<lambda>x. x \<notin> set cl) (remdups names)"

text \<open>
  \<open>_updateLabel(label)\<close>. Its first statement reads \<open>self._elements.label\<close> when no label
  is passed, before the \<open>const self\<close> of the next line is initialised: a ReferenceError.
\<close>

definition u_updateLabel ::
  "elem option \<Rightarrow> 'a button_scheme \<Rightarrow> (js_error + unit) \<times> 'a button_scheme" where
  "u_updateLabel label c =
     (case label of
        None \<Rightarrow> (Inl ReferenceError, c)
      | Some l \<Rightarrow>
          (let cl = tokens_remove [CLASSNAME @ ''-label'', ACTION_CLASSNAME @ ''-label''] (labelClasses c l);
               cl1 = (if u_variant c \<noteq> variant_CUSTOM then
                        (if u_variant c = variant_ACTION \<or> u_variant c = variant_QUIET_ACTION
                         then tokens_add [ACTION_CLASSNAME @ ''-label''] cl
                         else tokens_add [CLASSNAME @ ''-label''] cl)
                      else cl)
           in (Inr (), c\<lparr>labelClasses := (labelClasses c)(l := cl1)\<rparr>)))"


text \<open>
  The callback of the variant setter. \<open>classList.add(...VARIANT_MAP[value])\<close> is a
  TypeError when the map has no such key. The last call is \<open>self._updateLabel()\<close>,
  without a label.
\<close>

definition variantChanged :: "js_value \<Rightarrow> 'a button_scheme \<Rightarrow> (js_error + unit) \<times> 'a button_scheme" where
  "variantChanged v c =
     (case u_reflectAttribute ''variant'' v c of
        (Inl e, c1) \<Rightarrow> (Inl e, c1)
      | (Inr u, c1) \<Rightarrow>
          (let c2 = c1\<lparr>classList := tokens_remove ALL_VARIANT_CLASSES
                                      (tokens_remove [CLASSNAME, ACTION_CLASSNAME] (classList c1))\<rparr>
           in if v = variant_CUSTOM then
                u_updateLabel None (c2\<lparr>classList := tokens_remove [CLASSNAME] (classList c2)\<rparr>)
              else
                (case VARIANT_MAP v of
                   None \<Rightarrow> (Inl TypeError, c2)
                 | Some classes \<Rightarrow>
                     (let c3 = c2\<lparr>classList := tokens_add classes (classList c2)\<rparr>;
                          c4 = (if v = variant_ACTION \<or> v = variant_QUIET_ACTION
                                then c3\<lparr>classList := tokens_remove [CLASSNAME] (classList c3)\<rparr>
                                else c3)
                      in u_updateLabel None c4))))"

definition set_variant :: "utils \<Rightarrow> js_value \<Rightarrow> 'a button_scheme \<Rightarrow> (js_error + unit) \<times> 'a button_scheme" where
  "set_variant u v c =
     (let v1 = transform_toLowerCase u v;
          v2 = js_or (js_and (Boolean (validate_enumeration u variant_values v1)) v1) variant_DEFAULT
      in u_updateProperty u u_variant (\<lambda>x b. b\<lparr>u_variant := x\<rparr>) v2 variantChanged c)"



section \<open>QuickActionsItem.js\<close>

text \<open>
  Modelled from the spec: the class \<open>Messenger\<close> of \<open>coral-messenger\<close>, which is missing
  from the sources; the spec speaks of message passing between components.
  \<open>_messenger\<close> is here the list of the messages that the item has posted to it, oldest
  first, whatever the messenger does with them afterwards. A message is the one argument
  of \<open>postMessage\<close>, its name: the item passes no detail along with it.
\<close>

record quickactions_item = component +
  u_href :: js_value
  u_icon :: js_value
  u_type :: js_value
  u_messenger :: "string list"




definition get_href :: "'a quickactions_item_scheme \<Rightarrow> js_value" where
  "get_href c = js_or (u_href c) (String [])"


definition get_icon :: "'a quickactions_item_scheme \<Rightarrow> js_value" where
  "get_icon c = js_or (u_icon c) (String [])"




section \<open>BaseOverlay.js: the enumerated properties of an overlay\<close>









section \<open>The class expressions\<close>

text \<open>
  A class, as the class expressions of the sources build it: a class of the browser such
  as \<open>HTMLElement\<close>, or \<open>class extends superClass\<close> with the name of the mixin or class
  that declares it.
\<close>

datatype js_class = Native string | Extends string js_class

definition HTMLElement :: js_class where
  "HTMLElement = Native ''HTMLElement''"













section \<open>Playground.js: sharing the code\<close>

text \<open>
  The external functions that Playground calls: \<open>rawdeflate\<close> and \<open>rawinflate\<close> of the
  library deflate-js, on arrays of numbers, and \<open>btoa\<close>, \<open>atob\<close> and \<open>decodeURI\<close> of
  the browser. They are a parameter of the model, and total functions: the URIError of
  \<open>decodeURI\<close> on a malformed escape is not modelled.
\<close>

record playground_libs =
  rawdeflate :: "nat list \<Rightarrow> nat list"
  rawinflate :: "nat list \<Rightarrow> nat list"
  btoa :: "string \<Rightarrow> string"
  atob :: "string \<Rightarrow> string"
  decodeURI :: "string \<Rightarrow> string"

text \<open>\<open>Array.prototype.toString\<close>: the entries in decimal, joined by commas.\<close>

fun join_comma :: "string list \<Rightarrow> string" where
  "join_comma [] = []"
| "join_comma [x] = x"
| "join_comma (x # y # ys) = x @ CHR '','' # join_comma (y # ys)"

definition array_toString :: "nat list \<Rightarrow> string" where
  "array_toString xs = join_comma (map string_of_nat xs)"




text \<open>
  \<open>_compress\<close> and \<open>_uncompress\<close>. A string is a list of characters of one byte each,
  \<open>charCodeAt(0)\<close> is \<open>of_char\<close> and \<open>String.fromCharCode\<close> is \<open>char_of\<close>, which
  agrees with it on bytes.
\<close>

definition u_compress :: "playground_libs \<Rightarrow> string \<Rightarrow> string" where
  "u_compress L code =
     (let bytes = map (\<lambda>c. (of_char c :: nat)) code;
          compressed = rawdeflate L bytes
      in btoa L (array_toString compressed))"








definition PROPERTIES :: "string list" where
  "PROPERTIES = [''livereload'', ''screen'', ''code'']"


text \<open>
  A playground: \<open>_livereload\<close>, \<open>_screen\<close> and the text of the editor, which the
  getters \<open>livereload\<close>, \<open>screen\<close> and \<open>code\<close> return.
\<close>

record playground = component +
  u_livereload :: js_value
  u_screen :: js_value
  editorValue :: string

definition playground_property :: "string \<Rightarrow> 'a playground_scheme \<Rightarrow> js_value" where
  "playground_property property c =
     (if property = ''livereload'' then u_livereload c
      else if property = ''screen'' then u_screen c
      else String (editorValue c))"

definition share :: "playground_libs \<Rightarrow> 'a playground_scheme \<Rightarrow> string" where
  "share L c =
     fold (\<lambda>property query.
             if js_truthy (playground_property property c) then
               query @ property @ ''='' @
                 (if property = ''code'' then u_compress L (editorValue c)
                  else js_String (playground_property property c)) @ ''&''
             else query)
       PROPERTIES ''?''"

section \<open>Notions and example states of the statements\<close>

text \<open>
  The overlay stack is in order when no instance occurs twice and the \<open>zIndex\<close> values
  increase strictly from the bottom to the top.
\<close>

definition stack_ok :: "overlay list \<Rightarrow> bool" where
  "stack_ok st = (distinct (map inst st) \<and> sorted_wrt (<) (map zIndex st))"

text \<open>The stack without the entry of an instance, as \<open>pop\<close> leaves it.\<close>

definition remaining :: "elem \<Rightarrow> page \<Rightarrow> overlay list" where
  "remaining instance s = overlayStack (snd (pop instance s))"

text \<open>A call of \<open>OverlayManager.push\<close> or \<open>OverlayManager.pop\<close>, and the state after it.\<close>

datatype manager_op = Push elem | Pop elem

fun apply_op :: "manager_op \<Rightarrow> page \<Rightarrow> page" where
  "apply_op (Push instance) s = snd (push instance s)"
| "apply_op (Pop instance) s = snd (pop instance s)"

text \<open>A page with two overlays, pushed one after the other.\<close>

definition twoOverlays :: page where
  "twoOverlays = snd (push (El 2) (snd (push (El 1) (initialPage [El 1, El 2, El 3]))))"


text \<open>
  What \<open>hideEverythingBut\<close> leaves in \<open>_previousAriaHidden\<close> of a child it hides: for
  a child with a non-empty \<open>aria-hidden\<close> the non-empty value stored before, if there is
  one, and else the value of the attribute; \<open>false\<close> for a child whose attribute is
  missing or empty, whatever was stored before.
\<close>

definition stored_value :: "page \<Rightarrow> elem \<Rightarrow> string" where
  "stored_value s c =
     (if truthy_str (ariaHidden s c)
      then or_str (previousAriaHidden s c) (the (ariaHidden s c)) else ''false'')"

text \<open>A page with three children and no overlay, and the same with one child labelled.\<close>

definition threeChildren :: page where
  "threeChildren = initialPage [El 1, El 2, El 3]"

definition labelledChildren :: page where
  "labelledChildren = threeChildren\<lparr>ariaHidden := (\<lambda>e. None)(El 3 := Some ''mixed'')\<rparr>"

text \<open>
  The labelled page after an overlay was shown and hidden again, and the \<open>aria-hidden\<close>
  attribute of the third child was then removed: \<open>showEverything\<close> has not cleared
  \<open>_previousAriaHidden\<close>.
\<close>

definition reopenedChildren :: page where
  "reopenedChildren =
     (let s = showEverything (hideEverythingBut (El 1) labelledChildren)
      in s\<lparr>ariaHidden := (ariaHidden s)(El 3 := None)\<rparr>)"

text \<open>
  A call has settled the backdrop when it returned, and the backdrop is shut exactly when
  no entry of the stack has \<open>backdrop\<close> set and otherwise lies just below the topmost
  entry that has it.
\<close>

definition backdrop_settled :: "(js_error + unit) \<times> page \<Rightarrow> bool" where
  "backdrop_settled r =
     (fst r = Inr () \<and>
      (\<exists>b. backdropEl (snd r) = Some b \<and>
         (\<not> isOpen b \<longleftrightarrow> (\<forall>ov \<in> set (overlayStack (snd r)). \<not> backdrop ov)) \<and>
         (isOpen b \<longrightarrow>
            (\<exists>pre e post. overlayStack (snd r) = pre @ e # post \<and> backdrop e \<and>
               (\<forall>x \<in> set post. \<not> backdrop x) \<and> styleZ b = zIndex e - 1))))"

text \<open>
  Two overlays on the stack; the upper one asked for the backdrop first, then the lower
  one.
\<close>

definition bothBackdrops :: page where
  "bothBackdrops = u_showBackdrop (El 1) (u_showBackdrop (El 2) twoOverlays)"

text \<open>
  A component without attributes, children or listeners, in which every element is a
  \<open>div\<close>; the same where element 5 is a \<open>coral-button-label\<close>; and the options with which
  the \<open>label\<close> setter of BaseButton calls \<open>_setContentZone\<close>, without its \<open>insert\<close>
  function.
\<close>

definition plainComponent :: component where
  "plainComponent =
     \<lparr>self = El 0, attributes = Map.empty, classList = [], u_reflectedAttribute = False,
      u_tracking = Undefined, u_elements = Map.empty, u_globalEvents = None,
      u_globalKeys = None, u_keys = None, u_disconnected = None, u_rendered = False,
      events = [], parentNode = Map.empty, childNodes = (\<lambda>n. []),
      tagName = (\<lambda>n. ''DIV''), u_contentZoned = (\<lambda>n. False)\<rparr>"

definition labelOptions :: "component content_zone_options" where
  "labelOptions =
     \<lparr>opt_handle = ''label'', opt_tagName = Some ''coral-button-label'',
      opt_set = None, opt_insert = None\<rparr>"

definition labelComponent :: component where
  "labelComponent = plainComponent\<lparr>tagName := (\<lambda>n. ''DIV'')(El 5 := ''CORAL-BUTTON-LABEL'')\<rparr>"

text \<open>The stored listeners, an absent list counting as empty.\<close>

definition storedEvents :: "'a component_scheme \<Rightarrow> global_event list" where
  "storedEvents c = (case u_globalEvents c of None \<Rightarrow> [] | Some evs \<Rightarrow> evs)"

definition storedKeys :: "'a component_scheme \<Rightarrow> global_key list" where
  "storedKeys c = (case u_globalKeys c of None \<Rightarrow> [] | Some ks \<Rightarrow> ks)"

text \<open>
  A component whose event map has one global key listener,
  \<open>{'global:key:escape': listener}\<close>, and no key listener on the element itself:
  \<open>delegateEvents\<close> stores the listener in \<open>_globalKeys\<close> and creates no Keys instance.
\<close>

definition escapeEntry :: event_entry where
  "escapeEntry =
     \<lparr>entryName = ''global:key:escape'', entrySelector = [], entryListener = Some 1\<rparr>"

definition escapeKey :: global_key where
  "escapeKey =
     \<lparr>keyCombo = ''escape.CoralComponent'', keySelector = None, keyListener = 1\<rparr>"

definition keyOnlyComponent :: component where
  "keyOnlyComponent = plainComponent\<lparr>u_globalKeys := Some [escapeKey]\<rparr>"

text \<open>
  A value is settled for an enumerated property when it is the documented default or a
  value that \<open>validate.enumeration\<close> accepts.
\<close>

definition settled :: "utils \<Rightarrow> js_value list \<Rightarrow> js_value \<Rightarrow> js_value \<Rightarrow> bool" where
  "settled u values d x = (x = d \<or> validate_enumeration u values x)"

text \<open>
  Two instances of the parameter \<open>utils\<close>, for the examples. In both,
  \<open>transform.string\<close> gives the empty string for \<open>null\<close> and \<open>undefined\<close> and
  \<open>String(value)\<close> otherwise, the case helpers change the case of that string, and
  \<open>validate.valueMustChange\<close> is inequality. The validator of the first tests membership
  among the values of the enumeration. The validator of the second looks the value up
  among the properties of an object that has the values of the enumeration as keys: it
  accepts them, and the names that every object inherits.
\<close>

definition exampleString :: "js_value \<Rightarrow> string" where
  "exampleString v = (case v of Undefined \<Rightarrow> [] | Null \<Rightarrow> [] | _ \<Rightarrow> js_String v)"

definition strictUtils :: utils where
  "strictUtils =
     \<lparr>transform_toLowerCase = (\<lambda>v. String (toLowerCase (exampleString v))),
      transform_toUpperCase = (\<lambda>v. String (toUpperCase (exampleString v))),
      transform_string = exampleString,
      validate_enumeration = (\<lambda>values v. v \<in> set values),
      validate_valueMustChange = (\<lambda>a b. a \<noteq> b)\<rparr>"



text \<open>
  A button, a quickactions item and an overlay on which no setter has run, and an
  enumeration with the values \<open>on\<close> and \<open>off\<close>.
\<close>

definition plainButton :: button where
  "plainButton = component.extend plainComponent (button.fields Undefined Undefined (\<lambda>l. []))"





text \<open>
  Stand-ins for the external functions, for the examples: a deflate that puts the length
  in front of a non-empty array and leaves the empty array empty, and an encoding that
  escapes \<open>&\<close>. A playground whose editor holds \<open><b>hi</b>\<close>, and the same with an
  empty editor.
\<close>

fun toy_btoa :: "string \<Rightarrow> string" where
  "toy_btoa [] = []"
| "toy_btoa (c # cs) =
     (if c = CHR ''&'' then ''_a'' else if c = CHR ''_'' then ''__'' else [c]) @ toy_btoa cs"

fun toy_atob :: "string \<Rightarrow> string" where
  "toy_atob [] = []"
| "toy_atob [c] = [c]"
| "toy_atob (c # d # cs) =
     (if c = CHR ''_'' then (if d = CHR ''a'' then CHR ''&'' else CHR ''_'') # toy_atob cs
      else c # toy_atob (d # cs))"

definition toyLibs :: playground_libs where
  "toyLibs =
     \<lparr>rawdeflate = (\<lambda>bs. if bs = [] then [] else length bs # bs), rawinflate = tl,
      btoa = toy_btoa, atob = toy_atob, decodeURI = (\<lambda>s. s)\<rparr>"

definition demoPlayground :: playground where
  "demoPlayground = component.extend plainComponent
     (playground.fields (Boolean True) (String ''vertical'') ''<b>hi</b>'')"

definition emptyPlayground :: playground where
  "emptyPlayground = demoPlayground\<lparr>editorValue := []\<rparr>"

section \<open>Properties of the overlay stack\<close>


lemma indexOfFrom_None:
  "indexOfFrom i instance xs = None \<longleftrightarrow> (\<forall>x \<in> set xs. inst x \<noteq> instance)"
  by (induction xs arbitrary: i) auto

lemma indexOfFrom_Some:
  "indexOfFrom i instance xs = Some k \<Longrightarrow>
     i \<le> k \<and> k - i < length xs \<and> inst (xs ! (k - i)) = instance \<and>
     (\<forall>x \<in> set (take (k - i) xs). inst x \<noteq> instance)"
proof (induction xs arbitrary: i)
  case Nil
  then show ?case by simp
next
  case (Cons ov rest)
  show ?case
  proof (cases "inst ov = instance")
    case True
    with Cons.prems show ?thesis by simp
  next
    case False
    with Cons.prems have rec: "indexOfFrom (Suc i) instance rest = Some k" by simp
    from Cons.IH[OF rec] have a: "Suc i \<le> k" and b: "k - Suc i < length rest"
      and c: "inst (rest ! (k - Suc i)) = instance"
      and d: "\<forall>x \<in> set (take (k - Suc i) rest). inst x \<noteq> instance"
      by auto
    from a have e: "k - i = Suc (k - Suc i)" by arith
    from a b c d False show ?thesis by (simp add: e)
  qed
qed

lemma pop_absent:
  "\<forall>e \<in> set (overlayStack s). inst e \<noteq> instance \<Longrightarrow> pop instance s = (None, s)"
  by (simp add: pop_def indexOf_def indexOfFrom_None[THEN iffD2])

lemma pop_present:
  assumes "\<exists>e \<in> set (overlayStack s). inst e = instance"
  shows "\<exists>pre e post. overlayStack s = pre @ e # post \<and> inst e = instance \<and>
          (\<forall>x \<in> set pre. inst x \<noteq> instance) \<and>
          pop instance s = (Some e, s\<lparr>overlayStack := pre @ post\<rparr>)"
proof -
  from assms have "indexOfFrom 0 instance (overlayStack s) \<noteq> None"
    by (simp add: indexOfFrom_None)
  then obtain k where k: "indexOfFrom 0 instance (overlayStack s) = Some k" by auto
  from indexOfFrom_Some[OF k] have len: "k < length (overlayStack s)"
    and hit: "inst (overlayStack s ! k) = instance"
    and before: "\<forall>x \<in> set (take k (overlayStack s)). inst x \<noteq> instance"
    by auto
  let ?pre = "take k (overlayStack s)" and ?post = "drop (Suc k) (overlayStack s)"
  have split: "overlayStack s = ?pre @ (overlayStack s ! k) # ?post"
    using len by (simp add: id_take_nth_drop[symmetric])
  have "pop instance s = (Some (overlayStack s ! k), s\<lparr>overlayStack := ?pre @ ?post\<rparr>)"
    using k by (simp add: pop_def indexOf_def splice1_def)
  with split hit before show ?thesis by blast
qed

text \<open>The aria-hidden functions leave the stack, the backdrop and the body's children alone.\<close>

lemma hideChild_fields:
  "overlayStack (hideChild i c s) = overlayStack s"
  "backdropEl (hideChild i c s) = backdropEl s"
  "bodyChildren (hideChild i c s) = bodyChildren s"
  "contains (hideChild i c s) = contains s"
  "styleZIndex (hideChild i c s) = styleZIndex s"
  "requestedBackdrop (hideChild i c s) = requestedBackdrop s"
  "showBackdropOnAttached (hideChild i c s) = showBackdropOnAttached s"
  "hasParentNode (hideChild i c s) = hasParentNode s"
  "trapFocusOn (hideChild i c s) = trapFocusOn s"
  "tabCaptureEls (hideChild i c s) = tabCaptureEls s"
  "tabCaptureDisplay (hideChild i c s) = tabCaptureDisplay s"
  "noscroll (hideChild i c s) = noscroll s"
  by (simp_all add: hideChild_def setAriaHidden_def Let_def)

lemma fold_hideChild_fields:
  "overlayStack (fold (hideChild i) cs s) = overlayStack s"
  "backdropEl (fold (hideChild i) cs s) = backdropEl s"
  "bodyChildren (fold (hideChild i) cs s) = bodyChildren s"
  "contains (fold (hideChild i) cs s) = contains s"
  "styleZIndex (fold (hideChild i) cs s) = styleZIndex s"
  "requestedBackdrop (fold (hideChild i) cs s) = requestedBackdrop s"
  "showBackdropOnAttached (fold (hideChild i) cs s) = showBackdropOnAttached s"
  "hasParentNode (fold (hideChild i) cs s) = hasParentNode s"
  "trapFocusOn (fold (hideChild i) cs s) = trapFocusOn s"
  "tabCaptureEls (fold (hideChild i) cs s) = tabCaptureEls s"
  "tabCaptureDisplay (fold (hideChild i) cs s) = tabCaptureDisplay s"
  "noscroll (fold (hideChild i) cs s) = noscroll s"
  by (induction cs arbitrary: s) (simp_all add: hideChild_fields)

lemma hideEverythingBut_fields:
  "overlayStack (hideEverythingBut i s) = overlayStack s"
  "backdropEl (hideEverythingBut i s) = backdropEl s"
  "bodyChildren (hideEverythingBut i s) = bodyChildren s"
  "contains (hideEverythingBut i s) = contains s"
  "styleZIndex (hideEverythingBut i s) = styleZIndex s"
  "requestedBackdrop (hideEverythingBut i s) = requestedBackdrop s"
  "showBackdropOnAttached (hideEverythingBut i s) = showBackdropOnAttached s"
  "hasParentNode (hideEverythingBut i s) = hasParentNode s"
  "trapFocusOn (hideEverythingBut i s) = trapFocusOn s"
  "tabCaptureEls (hideEverythingBut i s) = tabCaptureEls s"
  "tabCaptureDisplay (hideEverythingBut i s) = tabCaptureDisplay s"
  "noscroll (hideEverythingBut i s) = noscroll s"
  by (simp_all add: hideEverythingBut_def setAriaHidden_def fold_hideChild_fields)

lemma showChild_fields:
  "overlayStack (showChild c s) = overlayStack s"
  "backdropEl (showChild c s) = backdropEl s"
  "bodyChildren (showChild c s) = bodyChildren s"
  "contains (showChild c s) = contains s"
  "styleZIndex (showChild c s) = styleZIndex s"
  "requestedBackdrop (showChild c s) = requestedBackdrop s"
  "showBackdropOnAttached (showChild c s) = showBackdropOnAttached s"
  "hasParentNode (showChild c s) = hasParentNode s"
  "trapFocusOn (showChild c s) = trapFocusOn s"
  "tabCaptureEls (showChild c s) = tabCaptureEls s"
  "tabCaptureDisplay (showChild c s) = tabCaptureDisplay s"
  "noscroll (showChild c s) = noscroll s"
  "previousAriaHidden (showChild c s) = previousAriaHidden s"
  by (simp_all add: showChild_def setAriaHidden_def)

lemma fold_showChild_fields:
  "overlayStack (fold showChild cs s) = overlayStack s"
  "backdropEl (fold showChild cs s) = backdropEl s"
  "bodyChildren (fold showChild cs s) = bodyChildren s"
  "contains (fold showChild cs s) = contains s"
  "styleZIndex (fold showChild cs s) = styleZIndex s"
  "requestedBackdrop (fold showChild cs s) = requestedBackdrop s"
  "showBackdropOnAttached (fold showChild cs s) = showBackdropOnAttached s"
  "hasParentNode (fold showChild cs s) = hasParentNode s"
  "trapFocusOn (fold showChild cs s) = trapFocusOn s"
  "tabCaptureEls (fold showChild cs s) = tabCaptureEls s"
  "tabCaptureDisplay (fold showChild cs s) = tabCaptureDisplay s"
  "noscroll (fold showChild cs s) = noscroll s"
  "previousAriaHidden (fold showChild cs s) = previousAriaHidden s"
  by (induction cs arbitrary: s) (simp_all add: showChild_fields)

lemma showEverything_fields:
  "overlayStack (showEverything s) = overlayStack s"
  "backdropEl (showEverything s) = backdropEl s"
  "bodyChildren (showEverything s) = bodyChildren s"
  "contains (showEverything s) = contains s"
  "styleZIndex (showEverything s) = styleZIndex s"
  "requestedBackdrop (showEverything s) = requestedBackdrop s"
  "showBackdropOnAttached (showEverything s) = showBackdropOnAttached s"
  "hasParentNode (showEverything s) = hasParentNode s"
  "trapFocusOn (showEverything s) = trapFocusOn s"
  "tabCaptureEls (showEverything s) = tabCaptureEls s"
  "tabCaptureDisplay (showEverything s) = tabCaptureDisplay s"
  "noscroll (showEverything s) = noscroll s"
  "previousAriaHidden (showEverything s) = previousAriaHidden s"
  by (simp_all add: showEverything_def fold_showChild_fields)

lemma doRepositionBackdrop_stack:
  "overlayStack (snd (doRepositionBackdrop s)) = overlayStack s"
  by (simp add: doRepositionBackdrop_def hideEverythingBut_fields
      split: option.splits)


lemma getHighestZIndex_last:
  "getHighestZIndex s = (if overlayStack s = [] then startZIndex else zIndex (last (overlayStack s)))"
  by (simp add: getHighestZIndex_def top_overlay_def last_conv_nth)

lemma push_stack_gen:
  assumes p: "pop instance s = (popped, s1)"
  shows "overlayStack (snd (push instance s)) =
           overlayStack s1 @
             [(case popped of Some e \<Rightarrow> e
               | None \<Rightarrow> \<lparr>inst = instance, zIndex = 0, backdrop = False\<rparr>)
              \<lparr>zIndex := getHighestZIndex s1 + 10\<rparr>]"
proof -
  define ov where "ov = (case popped of Some e \<Rightarrow> e
               | None \<Rightarrow> \<lparr>inst = instance, zIndex = 0, backdrop = False\<rparr>)
              \<lparr>zIndex := getHighestZIndex s1 + 10\<rparr>"
  define s3 where "s3 = s1\<lparr>styleZIndex := (styleZIndex s1)(instance := Some (getHighestZIndex s1 + 10)),
        overlayStack := overlayStack s1 @ [ov]\<rparr>"
  have unf: "push instance s =
      (if backdrop ov then
           (case doRepositionBackdrop s3 of
              (Inl e, s4) \<Rightarrow> (Inl e, s4)
            | (Inr u, s4) \<Rightarrow> (Inr ov, s4))
         else (Inr ov, s3))"
    unfolding ov_def s3_def push_def Let_def p by simp
  have "snd (push instance s) = (if backdrop ov then snd (doRepositionBackdrop s3) else s3)"
    unfolding unf by (cases "doRepositionBackdrop s3") (auto split: sum.splits)
  then have "overlayStack (snd (push instance s)) = overlayStack s3"
    by (simp add: doRepositionBackdrop_stack)
  then show ?thesis by (simp add: s3_def ov_def)
qed

lemma push_stack:
  "\<exists>ov. overlayStack (snd (push instance s)) = remaining instance s @ [ov] \<and>
        inst ov = instance \<and>
        zIndex ov = (if remaining instance s = [] then startZIndex + 10
                     else zIndex (last (remaining instance s)) + 10)"
proof (cases "\<exists>e \<in> set (overlayStack s). inst e = instance")
  case True
  from pop_present[OF True] obtain pre e post where
    p: "pop instance s = (Some e, s\<lparr>overlayStack := pre @ post\<rparr>)" and e: "inst e = instance" by blast
  show ?thesis
    using e by (simp add: push_stack_gen[OF p] remaining_def p getHighestZIndex_last)
next
  case False
  then have p: "pop instance s = (None, s)" by (simp add: pop_absent)
  show ?thesis
    by (simp add: push_stack_gen[OF p] remaining_def p getHighestZIndex_last)
qed

lemma remaining_absent:
  "\<forall>e \<in> set (overlayStack s). inst e \<noteq> instance \<Longrightarrow> remaining instance s = overlayStack s"
  by (simp add: remaining_def pop_absent)

lemma stack_ok_remaining:
  assumes "stack_ok (overlayStack s)"
  shows "stack_ok (remaining instance s) \<and> instance \<notin> inst ` set (remaining instance s)"
proof (cases "\<exists>e \<in> set (overlayStack s). inst e = instance")
  case True
  from pop_present[OF True] obtain pre e post where
    st: "overlayStack s = pre @ e # post" and e: "inst e = instance"
    and p: "pop instance s = (Some e, s\<lparr>overlayStack := pre @ post\<rparr>)" by blast
  have r: "remaining instance s = pre @ post" by (simp add: remaining_def p)
  from assms st e show ?thesis
    unfolding r stack_ok_def by (auto simp: sorted_wrt_append)
next
  case False
  with assms show ?thesis by (auto simp: remaining_absent)
qed

lemma stack_ok_push:
  assumes "stack_ok (overlayStack s)"
  shows "stack_ok (overlayStack (snd (push instance s)))"
proof -
  from push_stack obtain ov where
    st: "overlayStack (snd (push instance s)) = remaining instance s @ [ov]"
    and i: "inst ov = instance"
    and z: "zIndex ov = (if remaining instance s = [] then startZIndex + 10
                     else zIndex (last (remaining instance s)) + 10)" by blast
  from stack_ok_remaining[OF assms] have ok: "stack_ok (remaining instance s)"
    and fresh: "instance \<notin> inst ` set (remaining instance s)" by auto
  have below: "\<forall>x \<in> set (remaining instance s). zIndex x < zIndex ov"
  proof (cases "remaining instance s = []")
    case True
    then show ?thesis by simp
  next
    case False
    then obtain ys y where ys: "remaining instance s = ys @ [y]"
      by (metis rev_exhaust)
    from ok have "\<forall>x \<in> set ys. zIndex x < zIndex y"
      by (simp add: ys stack_ok_def sorted_wrt_append)
    with z show ?thesis by (auto simp: ys)
  qed
  from ok fresh below i show ?thesis
    unfolding st stack_ok_def by (auto simp: sorted_wrt_append)
qed


lemma stack_ok_apply_op:
  "stack_ok (overlayStack s) \<Longrightarrow> stack_ok (overlayStack (apply_op x s))"
  using stack_ok_remaining[of s] stack_ok_push[of s]
  by (cases x) (auto simp: remaining_def)

lemma stack_ok_fold:
  "stack_ok (overlayStack s) \<Longrightarrow> stack_ok (overlayStack (fold apply_op ops s))"
  by (induction ops arbitrary: s) (simp_all add: stack_ok_apply_op)


lemma twoOverlays_stack:
  "overlayStack twoOverlays =
     [\<lparr>inst = El 1, zIndex = 10010, backdrop = False\<rparr>,
      \<lparr>inst = El 2, zIndex = 10020, backdrop = False\<rparr>]"
  by (simp add: twoOverlays_def push_def pop_def indexOf_def initialPage_def Let_def
      getHighestZIndex_def top_overlay_def startZIndex_def splice1_def)

text \<open>
  Claim C4. \<open>OverlayManager.pop(instance)\<close> returns \<open>null\<close> and leaves everything as it
  is when no entry of the stack has the instance. Otherwise it removes the first entry
  with the instance and no other, keeps the order of the entries before and after it, and
  returns the removed entry.
\<close>

theorem pop_removes_first_entry:
  "((\<forall>e \<in> set (overlayStack s). inst e \<noteq> instance) \<longrightarrow> pop instance s = (None, s)) \<and>
   ((\<exists>e \<in> set (overlayStack s). inst e = instance) \<longrightarrow>
      (\<exists>pre e post. overlayStack s = pre @ e # post \<and> inst e = instance \<and>
          (\<forall>x \<in> set pre. inst x \<noteq> instance) \<and>
          pop instance s = (Some e, s\<lparr>overlayStack := pre @ post\<rparr>)))"
  using pop_absent pop_present by blast

theorem pop_removes_first_entry_witness:
  "pop (El 3) twoOverlays = (None, twoOverlays) \<and>
   (\<exists>pre e post. overlayStack twoOverlays = pre @ e # post \<and> inst e = El 2 \<and>
      (\<forall>x \<in> set pre. inst x \<noteq> El 2) \<and>
      pop (El 2) twoOverlays = (Some e, twoOverlays\<lparr>overlayStack := pre @ post\<rparr>))"
proof -
  have absent: "\<forall>e \<in> set (overlayStack twoOverlays). inst e \<noteq> El 3"
    by (simp add: twoOverlays_stack)
  have present: "\<exists>e \<in> set (overlayStack twoOverlays). inst e = El 2"
    by (simp add: twoOverlays_stack)
  from pop_removes_first_entry[of twoOverlays "El 3"] absent
  have one: "pop (El 3) twoOverlays = (None, twoOverlays)" by blast
  from pop_removes_first_entry[of twoOverlays "El 2"] present
  have two: "\<exists>pre e post. overlayStack twoOverlays = pre @ e # post \<and> inst e = El 2 \<and>
      (\<forall>x \<in> set pre. inst x \<noteq> El 2) \<and>
      pop (El 2) twoOverlays = (Some e, twoOverlays\<lparr>overlayStack := pre @ post\<rparr>)" by blast
  from one two show ?thesis by blast
qed

text \<open>
  Claim C1, as stated, says that \<open>push\<close> gives the pushed overlay the \<open>zIndex\<close> of the
  previous top plus 10. With the overlays 1 and 2 on the stack, overlay 2 on top with
  \<open>zIndex\<close> 10020, pushing overlay 2 again gives it 10020 and not 10030: \<open>push\<close> pops
  the entry of the instance first and counts from the top of what remains.
\<close>

theorem push_top_again_counterexample:
  "overlayStack twoOverlays =
     [\<lparr>inst = El 1, zIndex = 10010, backdrop = False\<rparr>,
      \<lparr>inst = El 2, zIndex = 10020, backdrop = False\<rparr>] \<and>
   getHighestZIndex twoOverlays = 10020 \<and>
   fst (push (El 2) twoOverlays) = Inr \<lparr>inst = El 2, zIndex = 10020, backdrop = False\<rparr> \<and>
   fst (push (El 2) twoOverlays) \<noteq>
     Inr \<lparr>inst = El 2, zIndex = getHighestZIndex twoOverlays + 10, backdrop = False\<rparr>"
  by (simp add: push_def pop_def indexOf_def Let_def twoOverlays_stack
      getHighestZIndex_def top_overlay_def startZIndex_def splice1_def)

text \<open>
  Claim C1, amended. After every sequence of \<open>push\<close> and \<open>pop\<close> calls from the empty
  stack, and after a \<open>push\<close> or \<open>pop\<close> from any stack that is in order, no instance
  occurs twice in the stack and the \<open>zIndex\<close> values increase strictly from the bottom
  to the top. \<open>push\<close> takes the entry of the instance out of the stack, when there is
  one, and puts it on top with a \<open>zIndex\<close> 10 above that of the top of the remaining
  stack, or \<open>startZIndex + 10\<close> when nothing remains; for an instance that was not on
  the stack the remaining stack is the whole stack.
\<close>

theorem push_pop_keep_stack_in_order:
  "stack_ok (overlayStack (fold apply_op ops (initialPage children))) \<and>
   (stack_ok (overlayStack s) \<longrightarrow>
      stack_ok (overlayStack (snd (push instance s))) \<and>
      stack_ok (overlayStack (snd (pop instance s))) \<and>
      instance \<notin> inst ` set (remaining instance s)) \<and>
   (\<exists>ov. overlayStack (snd (push instance s)) = remaining instance s @ [ov] \<and>
      inst ov = instance \<and>
      zIndex ov = (if remaining instance s = [] then startZIndex + 10
                   else zIndex (last (remaining instance s)) + 10)) \<and>
   ((\<forall>e \<in> set (overlayStack s). inst e \<noteq> instance) \<longrightarrow>
      remaining instance s = overlayStack s)"
proof -
  have "stack_ok (overlayStack (initialPage children))"
    by (simp add: initialPage_def stack_ok_def)
  then have a: "stack_ok (overlayStack (fold apply_op ops (initialPage children)))"
    by (rule stack_ok_fold)
  have b: "stack_ok (overlayStack s) \<longrightarrow>
      stack_ok (overlayStack (snd (push instance s))) \<and>
      stack_ok (overlayStack (snd (pop instance s))) \<and>
      instance \<notin> inst ` set (remaining instance s)"
    using stack_ok_push[of s "instance"] stack_ok_remaining[of s "instance"]
    by (simp add: remaining_def)
  from a b push_stack[of "instance" s] remaining_absent[of s "instance"] show ?thesis
    by blast
qed

theorem push_pop_keep_stack_in_order_witness:
  "stack_ok (overlayStack twoOverlays) \<and>
   stack_ok (overlayStack (snd (push (El 1) twoOverlays))) \<and>
   stack_ok (overlayStack (snd (pop (El 1) twoOverlays))) \<and>
   remaining (El 3) twoOverlays = overlayStack twoOverlays \<and>
   map zIndex (overlayStack (snd (push (El 3) twoOverlays))) = [10010, 10020, 10030]"
proof -
  have ok: "stack_ok (overlayStack twoOverlays)"
    by (simp add: twoOverlays_stack stack_ok_def)
  have absent: "\<forall>e \<in> set (overlayStack twoOverlays). inst e \<noteq> El 3"
    by (simp add: twoOverlays_stack)
  from push_pop_keep_stack_in_order[of "[]" "[]" twoOverlays "El 1"] ok
  have one: "stack_ok (overlayStack (snd (push (El 1) twoOverlays))) \<and>
             stack_ok (overlayStack (snd (pop (El 1) twoOverlays)))" by blast
  from push_pop_keep_stack_in_order[of "[]" "[]" twoOverlays "El 3"] absent
  have r: "remaining (El 3) twoOverlays = overlayStack twoOverlays"
    and p: "\<exists>ov. overlayStack (snd (push (El 3) twoOverlays)) = remaining (El 3) twoOverlays @ [ov] \<and>
      inst ov = El 3 \<and>
      zIndex ov = (if remaining (El 3) twoOverlays = [] then startZIndex + 10
                   else zIndex (last (remaining (El 3) twoOverlays)) + 10)"
    by blast+
  from p have three: "map zIndex (overlayStack (snd (push (El 3) twoOverlays))) = [10010, 10020, 10030]"
    unfolding r by (auto simp: twoOverlays_stack)
  from ok one r three show ?thesis by blast
qed



section \<open>Properties of aria-hidden\<close>

lemma hideChild_other:
  "c' \<noteq> c \<Longrightarrow> ariaHidden (hideChild i c' s) c = ariaHidden s c \<and>
     previousAriaHidden (hideChild i c' s) c = previousAriaHidden s c"
  by (simp add: hideChild_def setAriaHidden_def Let_def)

lemma truthy_or_str: "b \<noteq> [] \<Longrightarrow> or_str a b \<noteq> []"
  by (simp add: or_str_def split: option.splits)

lemma stored_value_truthy: "stored_value s c \<noteq> []"
  by (auto simp: stored_value_def truthy_str_def or_str_def split: option.splits)

lemma hideChild_self:
  "c \<noteq> i \<Longrightarrow> \<not> contains s c i \<Longrightarrow>
     ariaHidden (hideChild i c s) c = Some ''true'' \<and>
     previousAriaHidden (hideChild i c s) c = Some (stored_value s c)"
  by (simp add: hideChild_def setAriaHidden_def Let_def stored_value_def)

lemma hideChild_fixed:
  "ariaHidden s c = Some ''true'' \<Longrightarrow> previousAriaHidden s c = Some p \<Longrightarrow> p \<noteq> [] \<Longrightarrow>
     ariaHidden (hideChild i c s) c = Some ''true'' \<and>
     previousAriaHidden (hideChild i c s) c = Some p"
  by (simp add: hideChild_def setAriaHidden_def Let_def truthy_str_def or_str_def)

lemma fold_hideChild_fixed:
  "ariaHidden s c = Some ''true'' \<Longrightarrow> previousAriaHidden s c = Some p \<Longrightarrow> p \<noteq> [] \<Longrightarrow>
     ariaHidden (fold (hideChild i) cs s) c = Some ''true'' \<and>
     previousAriaHidden (fold (hideChild i) cs s) c = Some p"
proof (induction cs arbitrary: s)
  case Nil
  then show ?case by simp
next
  case (Cons x xs)
  have "ariaHidden (hideChild i x s) c = Some ''true'' \<and>
        previousAriaHidden (hideChild i x s) c = Some p"
  proof (cases "x = c")
    case True
    with Cons.prems show ?thesis by (simp add: hideChild_fixed)
  next
    case False
    with Cons.prems show ?thesis by (simp add: hideChild_other)
  qed
  with Cons.IH[of "hideChild i x s"] Cons.prems(3) show ?case by simp
qed

lemma fold_hideChild_member:
  "c \<in> set cs \<Longrightarrow> c \<noteq> i \<Longrightarrow> \<not> contains s c i \<Longrightarrow>
     ariaHidden (fold (hideChild i) cs s) c = Some ''true'' \<and>
     previousAriaHidden (fold (hideChild i) cs s) c = Some (stored_value s c)"
proof (induction cs arbitrary: s)
  case Nil
  then show ?case by simp
next
  case (Cons x xs)
  show ?case
  proof (cases "x = c")
    case True
    from hideChild_self[OF Cons.prems(2,3)] stored_value_truthy[of s c]
      fold_hideChild_fixed[of "hideChild i c s" c "stored_value s c" i xs]
    show ?thesis by (simp add: True)
  next
    case False
    with Cons.prems have mem: "c \<in> set xs" by simp
    have same: "stored_value (hideChild i x s) c = stored_value s c"
      using False by (simp add: stored_value_def hideChild_other)
    have cont: "\<not> contains (hideChild i x s) c i"
      using Cons.prems(3) by (simp add: hideChild_fields)
    from Cons.IH[OF mem Cons.prems(2) cont] same show ?thesis by simp
  qed
qed

lemma hideEverythingBut_child:
  assumes "c \<in> set (bodyChildren s)" "c \<noteq> i" "\<not> contains s c i"
  shows "ariaHidden (hideEverythingBut i s) c = Some ''true'' \<and>
         previousAriaHidden (hideEverythingBut i s) c = Some (stored_value s c)"
  using fold_hideChild_member[OF assms] assms(2)
  by (simp add: hideEverythingBut_def setAriaHidden_def)

lemma hideEverythingBut_instance:
  "ariaHidden (hideEverythingBut i s) i = Some ''false''"
  by (simp add: hideEverythingBut_def setAriaHidden_def)

lemma showChild_other:
  "c' \<noteq> c \<Longrightarrow> ariaHidden (showChild c' s) c = ariaHidden s c"
  by (simp add: showChild_def setAriaHidden_def)

lemma showChild_self:
  "ariaHidden (showChild c s) c = Some (or_str (previousAriaHidden s c) ''false'')"
  by (simp add: showChild_def setAriaHidden_def)

lemma fold_showChild_member:
  "c \<in> set cs \<Longrightarrow>
     ariaHidden (fold showChild cs s) c = Some (or_str (previousAriaHidden s c) ''false'')"
proof (induction cs arbitrary: s rule: rev_induct)
  case Nil
  then show ?case by simp
next
  case (snoc x xs)
  show ?case
  proof (cases "x = c")
    case True
    then show ?thesis
      by (simp add: showChild_self fold_showChild_fields)
  next
    case False
    with snoc.prems have "c \<in> set xs" by simp
    from snoc.IH[OF this] False show ?thesis by (simp add: showChild_other)
  qed
qed

lemma showEverything_child:
  "c \<in> set (bodyChildren s) \<Longrightarrow>
     ariaHidden (showEverything s) c = Some (or_str (previousAriaHidden s c) ''false'')"
  by (simp add: showEverything_def fold_showChild_member)


text \<open>
  Claim C7, as stated, says that \<open>hideEverythingBut\<close> stores the \<open>aria-hidden\<close> value it
  observes on a child it hides. On a page with three children, once the first overlay has
  hidden the third child, \<open>aria-hidden\<close> of that child is \<open>true\<close>; when a second overlay
  hides it again, the value stored stays \<open>false\<close>, the one stored the first time.
\<close>

theorem hideEverythingBut_keeps_stored_counterexample:
  "ariaHidden (hideEverythingBut (El 1) threeChildren) (El 3) = Some ''true'' \<and>
   previousAriaHidden (hideEverythingBut (El 2) (hideEverythingBut (El 1) threeChildren)) (El 3)
     = Some ''false''"
  by (simp add: threeChildren_def initialPage_def hideEverythingBut_def hideChild_def
      setAriaHidden_def Let_def truthy_str_def or_str_def)

text \<open>
  Claim C7, amended. For a child of the body that is not the instance and does not
  contain it, \<open>hideEverythingBut(instance)\<close> sets \<open>aria-hidden\<close> to \<open>true\<close>, and what it
  leaves in \<open>_previousAriaHidden\<close> depends on the attribute it finds:
  \<^item> the attribute is there and not empty, and a non-empty value is stored already: the
    stored value is kept;
  \<^item> the attribute is there and not empty, and nothing (or the empty string) is stored:
    the value of the attribute is stored;
  \<^item> the attribute is missing or empty: \<open>false\<close> is stored, over whatever was stored.
  A \<open>showEverything()\<close> right after sets the attribute of the child to the value that
  is stored then. The instance itself gets \<open>aria-hidden = false\<close>. In any state
  \<open>showEverything()\<close> sets \<open>aria-hidden\<close> of every child of the body to its stored
  previous value, \<open>false\<close> when there is none.
\<close>

theorem hideEverythingBut_showEverything:
  "(c \<in> set (bodyChildren s) \<and> c \<noteq> i \<and> \<not> contains s c i \<longrightarrow>
      ariaHidden (hideEverythingBut i s) c = Some ''true'' \<and>
      (ariaHidden s c = Some v \<and> v \<noteq> [] \<and> previousAriaHidden s c = Some p \<and> p \<noteq> [] \<longrightarrow>
         previousAriaHidden (hideEverythingBut i s) c = Some p) \<and>
      (ariaHidden s c = Some v \<and> v \<noteq> [] \<and>
       (previousAriaHidden s c = None \<or> previousAriaHidden s c = Some []) \<longrightarrow>
         previousAriaHidden (hideEverythingBut i s) c = Some v) \<and>
      (ariaHidden s c = None \<or> ariaHidden s c = Some [] \<longrightarrow>
         previousAriaHidden (hideEverythingBut i s) c = Some ''false'') \<and>
      ariaHidden (showEverything (hideEverythingBut i s)) c =
        previousAriaHidden (hideEverythingBut i s) c) \<and>
   ariaHidden (hideEverythingBut i s) i = Some ''false'' \<and>
   (c \<in> set (bodyChildren s) \<longrightarrow>
      ariaHidden (showEverything s) c = Some (or_str (previousAriaHidden s c) ''false''))"
proof -
  have hide: "ariaHidden (hideEverythingBut i s) c = Some ''true'' \<and>
      (ariaHidden s c = Some v \<and> v \<noteq> [] \<and> previousAriaHidden s c = Some p \<and> p \<noteq> [] \<longrightarrow>
         previousAriaHidden (hideEverythingBut i s) c = Some p) \<and>
      (ariaHidden s c = Some v \<and> v \<noteq> [] \<and>
       (previousAriaHidden s c = None \<or> previousAriaHidden s c = Some []) \<longrightarrow>
         previousAriaHidden (hideEverythingBut i s) c = Some v) \<and>
      (ariaHidden s c = None \<or> ariaHidden s c = Some [] \<longrightarrow>
         previousAriaHidden (hideEverythingBut i s) c = Some ''false'') \<and>
      ariaHidden (showEverything (hideEverythingBut i s)) c =
        previousAriaHidden (hideEverythingBut i s) c"
    if a: "c \<in> set (bodyChildren s) \<and> c \<noteq> i \<and> \<not> contains s c i"
  proof -
    from a have h: "ariaHidden (hideEverythingBut i s) c = Some ''true''"
      and st: "previousAriaHidden (hideEverythingBut i s) c = Some (stored_value s c)"
      by (simp_all add: hideEverythingBut_child)
    from a have "c \<in> set (bodyChildren (hideEverythingBut i s))"
      by (simp add: hideEverythingBut_fields)
    from showEverything_child[OF this] st stored_value_truthy[of s c]
    have sh: "ariaHidden (showEverything (hideEverythingBut i s)) c =
        previousAriaHidden (hideEverythingBut i s) c"
      by (simp add: or_str_def)
    have kept: "ariaHidden s c = Some v \<and> v \<noteq> [] \<and> previousAriaHidden s c = Some p \<and> p \<noteq> [] \<longrightarrow>
         stored_value s c = p"
      by (simp add: stored_value_def truthy_str_def or_str_def)
    have fresh: "ariaHidden s c = Some v \<and> v \<noteq> [] \<and>
       (previousAriaHidden s c = None \<or> previousAriaHidden s c = Some []) \<longrightarrow> stored_value s c = v"
      by (auto simp: stored_value_def truthy_str_def or_str_def)
    have absent: "ariaHidden s c = None \<or> ariaHidden s c = Some [] \<longrightarrow> stored_value s c = ''false''"
      by (auto simp: stored_value_def truthy_str_def)
    from h st sh kept fresh absent show ?thesis by simp
  qed
  with hideEverythingBut_instance[of i s] showEverything_child[of c s]
  show ?thesis by blast
qed

theorem hideEverythingBut_showEverything_witness:
  "ariaHidden (hideEverythingBut (El 1) labelledChildren) (El 3) = Some ''true'' \<and>
   previousAriaHidden (hideEverythingBut (El 1) labelledChildren) (El 3) = Some ''mixed'' \<and>
   ariaHidden (showEverything (hideEverythingBut (El 1) labelledChildren)) (El 3) = Some ''mixed'' \<and>
   previousAriaHidden (hideEverythingBut (El 2) (hideEverythingBut (El 1) labelledChildren)) (El 3)
     = Some ''mixed'' \<and>
   previousAriaHidden (hideEverythingBut (El 1) labelledChildren) (El 2) = Some ''false'' \<and>
   ariaHidden (showEverything (hideEverythingBut (El 1) labelledChildren)) (El 2) = Some ''false'' \<and>
   previousAriaHidden (hideEverythingBut (El 1) reopenedChildren) (El 3) = Some ''false'' \<and>
   ariaHidden (showEverything labelledChildren) (El 3) = Some ''false''"
proof -
  let ?h = "hideEverythingBut (El 1) labelledChildren"
  have c3: "El 3 \<in> set (bodyChildren labelledChildren) \<and> El 3 \<noteq> El 1 \<and>
            \<not> contains labelledChildren (El 3) (El 1)"
    and c2: "El 2 \<in> set (bodyChildren labelledChildren) \<and> El 2 \<noteq> El 1 \<and>
            \<not> contains labelledChildren (El 2) (El 1)"
    and v3: "ariaHidden labelledChildren (El 3) = Some ''mixed''"
            "previousAriaHidden labelledChildren (El 3) = None"
    and v2: "ariaHidden labelledChildren (El 2) = None"
    by (simp_all add: labelledChildren_def threeChildren_def initialPage_def)
  from hideEverythingBut_showEverything[of "El 3" labelledChildren "El 1" "''mixed''" "''x''"] c3 v3
  have one: "ariaHidden ?h (El 3) = Some ''true'' \<and>
     previousAriaHidden ?h (El 3) = Some ''mixed'' \<and>
     ariaHidden (showEverything ?h) (El 3) = previousAriaHidden ?h (El 3) \<and>
     ariaHidden (showEverything labelledChildren) (El 3) = Some (or_str None ''false'')"
    by simp
  have c3': "El 3 \<in> set (bodyChildren ?h) \<and> El 3 \<noteq> El 2 \<and> \<not> contains ?h (El 3) (El 2)"
    by (simp add: hideEverythingBut_fields labelledChildren_def threeChildren_def initialPage_def)
  from hideEverythingBut_showEverything[of "El 3" ?h "El 2" "''true''" "''mixed''"] c3' one
  have two: "previousAriaHidden (hideEverythingBut (El 2) ?h) (El 3) = Some ''mixed''"
    by simp
  from hideEverythingBut_showEverything[of "El 2" labelledChildren "El 1" "''x''" "''x''"] c2 v2
  have three: "previousAriaHidden ?h (El 2) = Some ''false'' \<and>
     ariaHidden (showEverything ?h) (El 2) = previousAriaHidden ?h (El 2)"
    by simp
  have r3: "El 3 \<in> set (bodyChildren reopenedChildren) \<and> El 3 \<noteq> El 1 \<and>
            \<not> contains reopenedChildren (El 3) (El 1)"
    and rv: "ariaHidden reopenedChildren (El 3) = None"
    by (simp_all add: reopenedChildren_def Let_def hideEverythingBut_fields showEverything_fields
        labelledChildren_def threeChildren_def initialPage_def)
  from hideEverythingBut_showEverything[of "El 3" reopenedChildren "El 1" "''x''" "''x''"] r3 rv
  have four: "previousAriaHidden (hideEverythingBut (El 1) reopenedChildren) (El 3) = Some ''false''"
    by simp
  from one two three four show ?thesis by (simp add: or_str_def)
qed

text \<open>
  In the last example something was stored: before the attribute was removed, a first
  overlay had left \<open>mixed\<close> in \<open>_previousAriaHidden\<close> of the third child.
\<close>

lemma reopenedChildren_stored:
  "previousAriaHidden reopenedChildren (El 3) = Some ''mixed'' \<and>
   ariaHidden reopenedChildren (El 3) = None"
  by (simp add: reopenedChildren_def labelledChildren_def threeChildren_def initialPage_def
      hideEverythingBut_def showEverything_def hideChild_def showChild_def setAriaHidden_def
      Let_def truthy_str_def or_str_def)

section \<open>Properties of the backdrop\<close>

lemma find_rev_backdrop:
  "find backdrop (rev st) = Some e \<Longrightarrow>
     \<exists>pre post. st = pre @ e # post \<and> backdrop e \<and> (\<forall>x \<in> set post. \<not> backdrop x)"
proof (induction st rule: rev_induct)
  case Nil
  then show ?case by simp
next
  case (snoc y ys)
  show ?case
  proof (cases "backdrop y")
    case True
    with snoc.prems have "e = y" by simp
    with True have "ys @ [y] = ys @ e # [] \<and> backdrop e \<and> (\<forall>x \<in> set []. \<not> backdrop x)"
      by simp
    then show ?thesis by blast
  next
    case False
    with snoc.prems have "find backdrop (rev ys) = Some e" by simp
    from snoc.IH[OF this] obtain pre post where
      "ys = pre @ e # post" "backdrop e" "\<forall>x \<in> set post. \<not> backdrop x" by blast
    with False have "ys @ [y] = pre @ e # (post @ [y]) \<and> backdrop e \<and>
        (\<forall>x \<in> set (post @ [y]). \<not> backdrop x)" by simp
    then show ?thesis by blast
  qed
qed

lemma find_rev_backdrop_None:
  "find backdrop (rev st) = None \<longleftrightarrow> (\<forall>ov \<in> set st. \<not> backdrop ov)"
  by (auto simp: find_None_iff)

lemma tabCapture_fields:
  "overlayStack (createDocumentTabCaptureEls s) = overlayStack s"
  "backdropEl (createDocumentTabCaptureEls s) = backdropEl s"
  "overlayStack (hideDocumentTabCaptureEls s) = overlayStack s"
  "backdropEl (hideDocumentTabCaptureEls s) = backdropEl s"
  by (simp_all add: createDocumentTabCaptureEls_def hideDocumentTabCaptureEls_def Let_def)

lemma doBackdropHide_open:
  assumes "backdropEl s = Some b"
  shows "fst (doBackdropHide s) = Inr () \<and>
         overlayStack (snd (doBackdropHide s)) = overlayStack s \<and>
         backdropEl (snd (doBackdropHide s)) = Some (b\<lparr>isOpen := False\<rparr>)"
  using assms by (simp add: doBackdropHide_def Let_def showEverything_fields)

lemma doRepositionBackdrop_open:
  assumes b: "backdropEl s = Some b" and e: "find backdrop (rev (overlayStack s)) = Some e"
  shows "fst (doRepositionBackdrop s) = Inr () \<and>
         overlayStack (snd (doRepositionBackdrop s)) = overlayStack s \<and>
         backdropEl (snd (doRepositionBackdrop s)) = Some (b\<lparr>styleZ := zIndex e - 1\<rparr>)"
proof -
  from e have "overlayStack s \<noteq> []" by auto
  then obtain t where "top_overlay s = Some t" by (simp add: top_overlay_def)
  with b e show ?thesis
    by (simp add: doRepositionBackdrop_def hideEverythingBut_fields)
qed

text \<open>The last step of \<open>hideOrRepositionBackdrop\<close> leaves the stack and the backdrop alone.\<close>

lemma hideOrReposition_unfold:
  assumes "backdropEl s = Some b" "isOpen b"
  shows "\<exists>r. r = (if \<not> list_ex (\<lambda>ov. backdrop ov) (overlayStack s) then doBackdropHide s
                  else doRepositionBackdrop s) \<and>
           (fst r = Inr () \<longrightarrow>
              fst (hideOrRepositionBackdrop s) = Inr () \<and>
              overlayStack (snd (hideOrRepositionBackdrop s)) = overlayStack (snd r) \<and>
              backdropEl (snd (hideOrRepositionBackdrop s)) = backdropEl (snd r))"
proof -
  define r where "r = (if \<not> list_ex (\<lambda>ov. backdrop ov) (overlayStack s) then doBackdropHide s
                  else doRepositionBackdrop s)"
  have "fst r = Inr () \<longrightarrow>
              fst (hideOrRepositionBackdrop s) = Inr () \<and>
              overlayStack (snd (hideOrRepositionBackdrop s)) = overlayStack (snd r) \<and>
              backdropEl (snd (hideOrRepositionBackdrop s)) = backdropEl (snd r)"
  proof
    assume ok: "fst r = Inr ()"
    then obtain s1 where r1: "r = (Inr (), s1)" by (cases r) auto
    have "hideOrRepositionBackdrop s =
            (case top_overlay s1 of
               None \<Rightarrow> (Inr (), hideDocumentTabCaptureEls s1)
             | Some topOv \<Rightarrow>
                 if \<not> (trapFocusOn s1 (inst topOv) \<and> requestedBackdrop s1 (inst topOv))
                 then (Inr (), hideDocumentTabCaptureEls s1)
                 else (Inr (), createDocumentTabCaptureEls s1))"
      using assms r1 unfolding hideOrRepositionBackdrop_def r_def Let_def by simp
    then show "fst (hideOrRepositionBackdrop s) = Inr () \<and>
              overlayStack (snd (hideOrRepositionBackdrop s)) = overlayStack (snd r) \<and>
              backdropEl (snd (hideOrRepositionBackdrop s)) = backdropEl (snd r)"
      by (simp add: r1 tabCapture_fields split: option.splits)
  qed
  then show ?thesis unfolding r_def by blast
qed

lemma hideOrReposition_settles:
  assumes b: "backdropEl s = Some b" and o: "isOpen b"
  shows "backdrop_settled (hideOrRepositionBackdrop s) \<and>
         overlayStack (snd (hideOrRepositionBackdrop s)) = overlayStack s"
proof (cases "list_ex (\<lambda>ov. backdrop ov) (overlayStack s)")
  case True
  then have "find backdrop (rev (overlayStack s)) \<noteq> None"
    by (auto simp: find_None_iff list_ex_iff)
  then obtain e where e: "find backdrop (rev (overlayStack s)) = Some e" by auto
  from find_rev_backdrop[OF e] obtain pre post where
    st: "overlayStack s = pre @ e # post" "backdrop e" "\<forall>x \<in> set post. \<not> backdrop x" by blast
  from hideOrReposition_unfold[OF b o] True doRepositionBackdrop_open[OF b e]
  have res: "fst (hideOrRepositionBackdrop s) = Inr ()"
    "overlayStack (snd (hideOrRepositionBackdrop s)) = overlayStack s"
    "backdropEl (snd (hideOrRepositionBackdrop s)) = Some (b\<lparr>styleZ := zIndex e - 1\<rparr>)"
    by simp_all
  have "\<exists>pre e' post. overlayStack s = pre @ e' # post \<and> backdrop e' \<and>
               (\<forall>x \<in> set post. \<not> backdrop x) \<and> zIndex e - 1 = zIndex e' - 1"
    using st by blast
  with res o st show ?thesis
    unfolding backdrop_settled_def by auto
next
  case False
  from hideOrReposition_unfold[OF b o] False doBackdropHide_open[OF b]
  have res: "fst (hideOrRepositionBackdrop s) = Inr ()"
    "overlayStack (snd (hideOrRepositionBackdrop s)) = overlayStack s"
    "backdropEl (snd (hideOrRepositionBackdrop s)) = Some (b\<lparr>isOpen := False\<rparr>)"
    by simp_all
  from False have "\<forall>ov \<in> set (overlayStack s). \<not> backdrop ov" by (simp add: list_ex_iff)
  with res show ?thesis unfolding backdrop_settled_def by simp
qed

lemma pop_backdropEl: "backdropEl (snd (pop i s)) = backdropEl s"
  by (simp add: pop_def split: option.splits)

lemma popOverlay_settles:
  assumes "backdropEl s = Some b" "isOpen b"
  shows "backdrop_settled (u_popOverlay i s) \<and>
         overlayStack (snd (u_popOverlay i s)) = remaining i s"
  using hideOrReposition_settles[of "snd (pop i s)" b] assms
  by (simp add: u_popOverlay_def pop_backdropEl remaining_def)

lemma hideBackdrop_settles:
  assumes b: "backdropEl s = Some b" and o: "isOpen b" and k: "indexOf i s = Some k"
  shows "backdrop_settled (u_hideBackdrop i s) \<and>
         overlayStack (snd (u_hideBackdrop i s)) =
           (overlayStack s)[k := (overlayStack s ! k)\<lparr>backdrop := False\<rparr>]"
proof -
  let ?s1 = "setBackdropAt k False s"
  have b1: "backdropEl ?s1 = Some b" using b by (simp add: setBackdropAt_def)
  from hideOrReposition_settles[OF b1 o]
  have set: "backdrop_settled (hideOrRepositionBackdrop ?s1)"
    and st: "overlayStack (snd (hideOrRepositionBackdrop ?s1)) = overlayStack ?s1" by simp_all
  from set have ok: "fst (hideOrRepositionBackdrop ?s1) = Inr ()"
    by (simp add: backdrop_settled_def)
  then obtain s2 where r: "hideOrRepositionBackdrop ?s1 = (Inr (), s2)"
    by (cases "hideOrRepositionBackdrop ?s1") auto
  have u: "u_hideBackdrop i s = (Inr (), s2\<lparr>requestedBackdrop := (requestedBackdrop s2)(i := False)\<rparr>)"
    by (simp add: u_hideBackdrop_def k r)
  from set st show ?thesis
    unfolding u r by (simp add: backdrop_settled_def setBackdropAt_def)
qed

lemma hideBackdrop_absent:
  "indexOf i s = None \<Longrightarrow>
     fst (u_hideBackdrop i s) = Inr () \<and>
     backdropEl (snd (u_hideBackdrop i s)) = backdropEl s \<and>
     overlayStack (snd (u_hideBackdrop i s)) = overlayStack s"
  by (simp add: u_hideBackdrop_def)

lemma doBackdropShow_backdrop:
  "\<exists>b. backdropEl (doBackdropShow z i s) = Some b \<and> styleZ b = z - 1 \<and> isOpen b"
  by (simp add: doBackdropShow_def Let_def hideEverythingBut_fields split: option.splits)

lemma showBackdrop_backdrop:
  assumes "indexOf i s = Some k"
  shows "\<exists>b. backdropEl (u_showBackdrop i s) = Some b \<and>
            styleZ b = zIndex (overlayStack s ! k) - 1 \<and> isOpen b"
proof -
  from doBackdropShow_backdrop[of "zIndex (overlayStack s ! k)" i "setBackdropAt k True s"]
  obtain b where "backdropEl (doBackdropShow (zIndex (overlayStack s ! k)) i (setBackdropAt k True s)) = Some b"
    "styleZ b = zIndex (overlayStack s ! k) - 1" "isOpen b" by blast
  with assms show ?thesis
    by (simp add: u_showBackdrop_def Let_def tabCapture_fields)
qed


lemmas page_eval =
  twoOverlays_def bothBackdrops_def initialPage_def push_def pop_def indexOf_def Let_def
  getHighestZIndex_def top_overlay_def startZIndex_def splice1_def
  u_showBackdrop_def u_hideBackdrop_def setBackdropAt_def doBackdropShow_def
  hideEverythingBut_fields

lemma bothBackdrops_stack:
  "overlayStack bothBackdrops =
     [\<lparr>inst = El 1, zIndex = 10010, backdrop = True\<rparr>,
      \<lparr>inst = El 2, zIndex = 10020, backdrop = True\<rparr>]"
  by (simp add: page_eval)

lemma bothBackdrops_backdropEl:
  "backdropEl bothBackdrops = Some \<lparr>styleZ = 10009, isOpen = True\<rparr>"
  by (simp add: page_eval)

lemma indexOf_eval:
  "indexOf (El 1) bothBackdrops = Some 0"
  "indexOf (El 2) bothBackdrops = Some 1"
  "indexOf (El 3) bothBackdrops = None"
  by (simp_all add: indexOf_def bothBackdrops_stack)

text \<open>
  Claim C3, as stated, covers every run of \<open>_hideBackdrop\<close> while the backdrop is open.
  Two overlays are on the stack with \<open>zIndex\<close> 10010 and 10020, both have asked for the
  backdrop, the lower one last, so the backdrop lies at 10009. \<open>_hideBackdrop\<close> of a
  third overlay, which has no entry on the stack, returns without a call of
  \<open>hideOrRepositionBackdrop\<close>: the backdrop stays at 10009 and not at 10019, one below
  the topmost entry with \<open>backdrop\<close>.
\<close>

theorem hideBackdrop_untracked_counterexample:
  "overlayStack bothBackdrops =
     [\<lparr>inst = El 1, zIndex = 10010, backdrop = True\<rparr>,
      \<lparr>inst = El 2, zIndex = 10020, backdrop = True\<rparr>] \<and>
   fst (u_hideBackdrop (El 3) bothBackdrops) = Inr () \<and>
   overlayStack (snd (u_hideBackdrop (El 3) bothBackdrops)) = overlayStack bothBackdrops \<and>
   backdropEl (snd (u_hideBackdrop (El 3) bothBackdrops)) = Some \<lparr>styleZ = 10009, isOpen = True\<rparr> \<and>
   \<not> backdrop_settled (u_hideBackdrop (El 3) bothBackdrops)"
proof -
  have r: "u_hideBackdrop (El 3) bothBackdrops =
      (Inr (), bothBackdrops\<lparr>requestedBackdrop := (requestedBackdrop bothBackdrops)(El 3 := False)\<rparr>)"
    by (simp add: u_hideBackdrop_def indexOf_eval)
  have "\<not> (\<exists>pre e post. overlayStack bothBackdrops = pre @ e # post \<and> backdrop e \<and>
               (\<forall>x \<in> set post. \<not> backdrop x) \<and> (10009::int) = zIndex e - 1)"
    by (auto simp: bothBackdrops_stack Cons_eq_append_conv)
  then have "\<not> backdrop_settled (u_hideBackdrop (El 3) bothBackdrops)"
    unfolding r by (simp add: backdrop_settled_def bothBackdrops_backdropEl)
  then show ?thesis
    unfolding r by (simp add: bothBackdrops_stack bothBackdrops_backdropEl)
qed

lemma indexOf_inst:
  "indexOf i s = Some k \<Longrightarrow> inst (overlayStack s ! k) = i"
  using indexOfFrom_Some[of 0 i "overlayStack s" k] by (simp add: indexOf_def)

text \<open>
  Claim C3, amended. While the backdrop is open, \<open>_popOverlay\<close> of any overlay, and
  \<open>_hideBackdrop\<close> of an overlay that has an entry on the stack, return with the
  backdrop shut if and only if no entry remaining on the stack has \<open>backdrop\<close> set, and
  otherwise with the backdrop open and its z-index one less than the \<open>zIndex\<close> of the
  topmost entry with \<open>backdrop\<close> set. \<open>_hideBackdrop\<close> of an overlay without an entry
  leaves the backdrop and the stack as they are. \<open>doBackdropShow\<close> opens the backdrop
  at the given z-index minus 1, and \<open>_showBackdrop\<close> passes it the \<open>zIndex\<close> of the
  entry of the overlay that asks.
\<close>

theorem backdrop_hidden_or_repositioned:
  "(backdropEl s = Some b \<and> isOpen b \<longrightarrow>
      backdrop_settled (u_popOverlay i s) \<and>
      overlayStack (snd (u_popOverlay i s)) = remaining i s \<and>
      (indexOf i s = Some k \<longrightarrow>
         backdrop_settled (u_hideBackdrop i s) \<and>
         overlayStack (snd (u_hideBackdrop i s)) =
           (overlayStack s)[k := (overlayStack s ! k)\<lparr>backdrop := False\<rparr>])) \<and>
   (indexOf i s = None \<longrightarrow>
      fst (u_hideBackdrop i s) = Inr () \<and>
      backdropEl (snd (u_hideBackdrop i s)) = backdropEl s \<and>
      overlayStack (snd (u_hideBackdrop i s)) = overlayStack s) \<and>
   (\<exists>b'. backdropEl (doBackdropShow z i s) = Some b' \<and> styleZ b' = z - 1 \<and> isOpen b') \<and>
   (indexOf i s = Some k \<longrightarrow>
      inst (overlayStack s ! k) = i \<and>
      (\<exists>b'. backdropEl (u_showBackdrop i s) = Some b' \<and>
         styleZ b' = zIndex (overlayStack s ! k) - 1 \<and> isOpen b'))"
  using popOverlay_settles[of s b i] hideBackdrop_settles[of s b i k]
    hideBackdrop_absent[of i s] doBackdropShow_backdrop[of z i s]
    showBackdrop_backdrop[of i s k] indexOf_inst[of i s k]
  by blast

theorem backdrop_hidden_or_repositioned_witness:
  "backdrop_settled (u_popOverlay (El 2) bothBackdrops) \<and>
   backdrop_settled (u_hideBackdrop (El 2) bothBackdrops) \<and>
   overlayStack (snd (u_hideBackdrop (El 2) bothBackdrops)) =
     [\<lparr>inst = El 1, zIndex = 10010, backdrop = True\<rparr>,
      \<lparr>inst = El 2, zIndex = 10020, backdrop = False\<rparr>] \<and>
   backdropEl (snd (u_hideBackdrop (El 3) bothBackdrops)) = backdropEl bothBackdrops \<and>
   (\<exists>b'. backdropEl (u_showBackdrop (El 2) bothBackdrops) = Some b' \<and>
      styleZ b' = 10019 \<and> isOpen b')"
proof -
  have op: "backdropEl bothBackdrops = Some \<lparr>styleZ = 10009, isOpen = True\<rparr> \<and>
            isOpen \<lparr>styleZ = 10009, isOpen = True\<rparr>"
    by (simp add: bothBackdrops_backdropEl)
  from backdrop_hidden_or_repositioned[of bothBackdrops "\<lparr>styleZ = 10009, isOpen = True\<rparr>" "El 2" 1 0]
    op indexOf_eval(2)
  have a: "backdrop_settled (u_popOverlay (El 2) bothBackdrops)"
    and b: "backdrop_settled (u_hideBackdrop (El 2) bothBackdrops)"
    and c: "overlayStack (snd (u_hideBackdrop (El 2) bothBackdrops)) =
           (overlayStack bothBackdrops)[1 := (overlayStack bothBackdrops ! 1)\<lparr>backdrop := False\<rparr>]"
    and d: "\<exists>b'. backdropEl (u_showBackdrop (El 2) bothBackdrops) = Some b' \<and>
         styleZ b' = zIndex (overlayStack bothBackdrops ! 1) - 1 \<and> isOpen b'"
    by blast+
  from backdrop_hidden_or_repositioned[of bothBackdrops "\<lparr>styleZ = 10009, isOpen = True\<rparr>" "El 3" 0 0]
    indexOf_eval(3)
  have e: "backdropEl (snd (u_hideBackdrop (El 3) bothBackdrops)) = backdropEl bothBackdrops"
    by blast
  from a b c d e show ?thesis by (simp add: bothBackdrops_stack)
qed

section \<open>Properties of BaseComponent\<close>

lemmas case_eval = toLowerCase_def toUpperCase_def lower_char_def upper_char_def
  upper_letters_def lower_letters_def

lemma setAttribute_valid:
  "isName name \<Longrightarrow>
     setAttribute name v c =
       (Inr (), c\<lparr>attributes := (attributes c)(toLowerCase name \<mapsto> v)\<rparr>)"
  by (simp add: setAttribute_def)

lemma setAttribute_invalid:
  "\<not> isName name \<Longrightarrow> setAttribute name v c = (Inl InvalidCharacterError, c)"
  by (simp add: setAttribute_def)










lemma setContentZone_not_element:
  "js_truthy v \<Longrightarrow> \<forall>e. v \<noteq> Element e \<Longrightarrow>
     u_setContentZone property v options c = (Inl (NotAnHTMLElement property), c)"
  by (cases v) (simp_all add: u_setContentZone_def)

lemma setContentZone_wrong_tag:
  "opt_tagName options = Some t \<Longrightarrow> t \<noteq> [] \<Longrightarrow> toLowerCase (tagName c e) \<noteq> t \<Longrightarrow>
     u_setContentZone property (Element e) options c =
       (Inl (UnexpectedTagName property (tagName c e) (toUpperCase t)), c)"
  by (simp add: u_setContentZone_def truthy_str_def)

lemma assignHandle_no_setter:
  "opt_set options = None \<Longrightarrow>
     u_elements (assignHandle v options c) (opt_handle options) = Some v"
  by (simp add: assignHandle_def)

lemma setContentZone_valid:
  assumes "\<not> js_truthy v \<or>
      (\<exists>e. v = Element e \<and>
         (\<not> truthy_str (opt_tagName options) \<or>
          toLowerCase (tagName c e) = the (opt_tagName options)))"
  shows "fst (u_setContentZone property v options c) = Inr () \<and>
         (opt_set options = None \<longrightarrow>
            u_elements (snd (u_setContentZone property v options c)) (opt_handle options) = Some v)"
  using assms
  by (auto simp: u_setContentZone_def Let_def assignHandle_no_setter)

text \<open>
  Claim C5. \<open>_setContentZone(property, value, options)\<close> throws when a truthy value is
  not an HTMLElement, and when \<open>options.tagName\<close> is given (a non-empty string) and
  differs from the lower-cased tag name of the value. In both cases the component is left
  as it was, \<open>_elements\<close> and the children of every node included. In every other case
  the call returns, and the handle holds the value when no \<open>set\<close> option runs after the
  assignment.
\<close>

theorem setContentZone_validates_first:
  "(js_truthy v \<and> (\<forall>e. v \<noteq> Element e) \<longrightarrow>
      u_setContentZone property v options c = (Inl (NotAnHTMLElement property), c)) \<and>
   (opt_tagName options = Some t \<and> t \<noteq> [] \<and> toLowerCase (tagName c e) \<noteq> t \<longrightarrow>
      u_setContentZone property (Element e) options c =
        (Inl (UnexpectedTagName property (tagName c e) (toUpperCase t)), c)) \<and>
   (\<not> js_truthy v \<or>
      (\<exists>e'. v = Element e' \<and>
         (\<not> truthy_str (opt_tagName options) \<or>
          toLowerCase (tagName c e') = the (opt_tagName options))) \<longrightarrow>
      fst (u_setContentZone property v options c) = Inr () \<and>
      (opt_set options = None \<longrightarrow>
         u_elements (snd (u_setContentZone property v options c)) (opt_handle options) = Some v))"
  using setContentZone_not_element[of v property options c]
    setContentZone_wrong_tag[of options t c e property]
    setContentZone_valid[of v options c property]
  by blast

theorem setContentZone_validates_first_witness:
  "u_setContentZone ''label'' (String ''text'') labelOptions labelComponent =
     (Inl (NotAnHTMLElement ''label''), labelComponent) \<and>
   u_setContentZone ''label'' (Element (El 4)) labelOptions labelComponent =
     (Inl (UnexpectedTagName ''label'' ''DIV'' ''CORAL-BUTTON-LABEL''), labelComponent) \<and>
   fst (u_setContentZone ''label'' (Element (El 5)) labelOptions labelComponent) = Inr () \<and>
   u_elements (snd (u_setContentZone ''label'' (Element (El 5)) labelOptions labelComponent)) ''label''
     = Some (Element (El 5)) \<and>
   childNodes (snd (u_setContentZone ''label'' (Element (El 5)) labelOptions labelComponent)) (El 0)
     = [El 5] \<and>
   childNodes labelComponent (El 0) = []"
proof -
  have tr: "js_truthy (String ''text'') \<and> (\<forall>e. String ''text'' \<noteq> Element e)" by simp
  have tag4: "opt_tagName labelOptions = Some ''coral-button-label'' \<and>
              ''coral-button-label'' \<noteq> [] \<and>
              toLowerCase (tagName labelComponent (El 4)) \<noteq> ''coral-button-label''"
    by (simp add: labelOptions_def labelComponent_def plainComponent_def case_eval)
  have tag5: "toLowerCase (tagName labelComponent (El 5)) = the (opt_tagName labelOptions)"
    by (simp add: labelOptions_def labelComponent_def plainComponent_def case_eval)
  have handle: "opt_set labelOptions = None" "opt_handle labelOptions = ''label''"
    by (simp_all add: labelOptions_def)
  have names: "tagName labelComponent (El 4) = ''DIV''"
    "toUpperCase ''coral-button-label'' = ''CORAL-BUTTON-LABEL''"
    by (simp_all add: labelComponent_def plainComponent_def case_eval)
  from setContentZone_validates_first[of "String ''text''" "''label''" labelOptions labelComponent
      "''coral-button-label''" "El 4"] tr tag4
  have one: "u_setContentZone ''label'' (String ''text'') labelOptions labelComponent =
     (Inl (NotAnHTMLElement ''label''), labelComponent)"
    and two: "u_setContentZone ''label'' (Element (El 4)) labelOptions labelComponent =
     (Inl (UnexpectedTagName ''label'' (tagName labelComponent (El 4))
            (toUpperCase ''coral-button-label'')), labelComponent)"
    by blast+
  from setContentZone_validates_first[of "Element (El 5)" "''label''" labelOptions labelComponent
      "''coral-button-label''" "El 4"] tag5 handle
  have three: "fst (u_setContentZone ''label'' (Element (El 5)) labelOptions labelComponent) = Inr ()"
    and four: "u_elements (snd (u_setContentZone ''label'' (Element (El 5)) labelOptions labelComponent)) ''label''
     = Some (Element (El 5))"
    by auto
  have five: "childNodes (snd (u_setContentZone ''label'' (Element (El 5)) labelOptions labelComponent)) (El 0)
     = [El 5]"
    using tag5
    by (simp add: u_setContentZone_def Let_def labelOptions_def assignHandle_def
        oldNodeInDom_def appendChild_def detach_def labelComponent_def plainComponent_def)
  have six: "childNodes labelComponent (El 0) = []"
    by (simp add: labelComponent_def plainComponent_def)
  from one two three four five six names show ?thesis by simp
qed

section \<open>Global listeners over the lifecycle\<close>

lemma fold_vent_on: "fold vent_on evs es = es @ evs"
  by (induction evs arbitrary: es) (simp_all add: vent_on_def)

lemma fold_keys_on: "keyListeners (fold keys_on ks k) = keyListeners k @ ks"
  by (induction ks arbitrary: k) (simp_all add: keys_on_def)

lemma fold_keys_on_initialised: "keysInitialised (fold keys_on ks k) = keysInitialised k"
  by (induction ks arbitrary: k) (simp_all add: keys_on_def)

lemma vent_off_subset: "set (fold vent_off evs es) \<subseteq> set es"
proof (induction evs arbitrary: es)
  case Nil
  then show ?case by simp
next
  case (Cons e evs)
  have "set (fold vent_off evs (vent_off e es)) \<subseteq> set (vent_off e es)" by (rule Cons.IH)
  also have "\<dots> \<subseteq> set es" by (auto simp: vent_off_def)
  finally show ?case by simp
qed

lemma vent_off_removes: "e \<in> set evs \<Longrightarrow> e \<notin> set (fold vent_off evs es)"
proof (induction evs arbitrary: es)
  case Nil
  then show ?case by simp
next
  case (Cons x evs)
  show ?case
  proof (cases "e = x")
    case True
    have "e \<notin> set (vent_off e es)" by (simp add: vent_off_def)
    with vent_off_subset[of evs "vent_off e es"] show ?thesis using True by auto
  next
    case False
    with Cons.prems have "e \<in> set evs" by simp
    from Cons.IH[OF this] show ?thesis by simp
  qed
qed

lemma keys_off_subset: "set (keyListeners (fold keys_off ks k)) \<subseteq> set (keyListeners k)"
proof (induction ks arbitrary: k)
  case Nil
  then show ?case by simp
next
  case (Cons x ks)
  have "set (keyListeners (fold keys_off ks (keys_off x k))) \<subseteq> set (keyListeners (keys_off x k))"
    by (rule Cons.IH)
  also have "\<dots> \<subseteq> set (keyListeners k)" by (auto simp: keys_off_def)
  finally show ?case by simp
qed

lemma keys_off_removes: "x \<in> set ks \<Longrightarrow> x \<notin> set (keyListeners (fold keys_off ks k))"
proof (induction ks arbitrary: k)
  case Nil
  then show ?case by simp
next
  case (Cons y ks)
  show ?case
  proof (cases "x = y")
    case True
    have "x \<notin> set (keyListeners (keys_off x k))" by (simp add: keys_off_def)
    with keys_off_subset[of ks "keys_off x k"] show ?thesis using True by auto
  next
    case False
    with Cons.prems have "x \<in> set ks" by simp
    from Cons.IH[OF this] show ?thesis by simp
  qed
qed

lemma undelegate_with_keys:
  assumes "u_keys c = Some k"
  shows "undelegateGlobalEvents c =
           (Inr (), c\<lparr>events := fold vent_off (storedEvents c) (events c),
                       u_keys := Some ((fold keys_off (storedKeys c) k)\<lparr>keysInitialised := False\<rparr>)\<rparr>)"
  using assms
  by (simp add: undelegateGlobalEvents_def Let_def storedEvents_def storedKeys_def
      split: option.splits)

lemma undelegate_without_keys:
  assumes "u_keys c = None" "storedKeys c = []"
  shows "undelegateGlobalEvents c =
           (Inr (), c\<lparr>events := fold vent_off (storedEvents c) (events c)\<rparr>)"
  using assms
  by (simp add: undelegateGlobalEvents_def Let_def storedEvents_def storedKeys_def
      split: option.splits)

lemma delegate_with_keys:
  assumes "u_keys c = Some k"
  shows "delegateGlobalEvents c =
           (Inr (), c\<lparr>events := events c @ storedEvents c,
                       u_keys := Some ((fold keys_on (storedKeys c) k)\<lparr>keysInitialised := True\<rparr>)\<rparr>)"
  using assms
  by (simp add: delegateGlobalEvents_def Let_def storedEvents_def storedKeys_def fold_vent_on
      split: option.splits)

lemma delegate_without_keys:
  assumes "u_keys c = None" "storedKeys c = []"
  shows "delegateGlobalEvents c = (Inr (), c\<lparr>events := events c @ storedEvents c\<rparr>)"
  using assms
  by (simp add: delegateGlobalEvents_def Let_def storedEvents_def storedKeys_def fold_vent_on
      split: option.splits)

text \<open>
  With a Keys instance, or without stored key listeners, the two callbacks return, the
  first removes every stored listener and the second attaches the stored listeners again.
\<close>

lemma lifecycle_with_keys:
  assumes "u_keys c = Some k"
  shows "\<exists>c1 k1 c2 k2.
           disconnectedCallback c = (Inr (), c1) \<and> u_disconnected c1 = Some True \<and>
           u_keys c1 = Some k1 \<and> \<not> keysInitialised k1 \<and>
           (\<forall>e \<in> set (storedEvents c). e \<notin> set (events c1)) \<and>
           (\<forall>x \<in> set (storedKeys c). x \<notin> set (keyListeners k1)) \<and>
           connectedCallback c1 = (Inr (), c2) \<and> u_disconnected c2 = Some False \<and>
           events c2 = events c1 @ storedEvents c \<and>
           u_keys c2 = Some k2 \<and> keysInitialised k2 \<and>
           keyListeners k2 = keyListeners k1 @ storedKeys c"
proof -
  let ?c0 = "c\<lparr>u_disconnected := Some True\<rparr>"
  let ?k1 = "(fold keys_off (storedKeys c) k)\<lparr>keysInitialised := False\<rparr>"
  let ?c1 = "?c0\<lparr>events := fold vent_off (storedEvents c) (events c),
                       u_keys := Some ?k1\<rparr>"
  have d: "disconnectedCallback c = (Inr (), ?c1)"
    using undelegate_with_keys[of ?c0 k] assms
    by (simp add: disconnectedCallback_def storedEvents_def storedKeys_def)
  let ?k2 = "(fold keys_on (storedKeys c) ?k1)\<lparr>keysInitialised := True\<rparr>"
  let ?c2' = "?c1\<lparr>events := events ?c1 @ storedEvents c, u_keys := Some ?k2\<rparr>"
  have g: "delegateGlobalEvents ?c1 = (Inr (), ?c2')"
    using delegate_with_keys[of ?c1 ?k1] by (simp add: storedEvents_def storedKeys_def)
  let ?c2 = "(if \<not> u_rendered ?c2' then render (?c2'\<lparr>u_disconnected := Some False\<rparr>)
              else ?c2'\<lparr>u_disconnected := Some False\<rparr>)"
  have cc: "connectedCallback ?c1 = (Inr (), ?c2)"
    by (simp add: connectedCallback_def g Let_def)
  have "u_disconnected ?c1 = Some True \<and>
           u_keys ?c1 = Some ?k1 \<and> \<not> keysInitialised ?k1 \<and>
           (\<forall>e \<in> set (storedEvents c). e \<notin> set (events ?c1)) \<and>
           (\<forall>x \<in> set (storedKeys c). x \<notin> set (keyListeners ?k1)) \<and>
           u_disconnected ?c2 = Some False \<and>
           events ?c2 = events ?c1 @ storedEvents c \<and>
           u_keys ?c2 = Some ?k2 \<and> keysInitialised ?k2 \<and>
           keyListeners ?k2 = keyListeners ?k1 @ storedKeys c"
    by (simp add: vent_off_removes keys_off_removes render_def fold_keys_on)
  with d cc show ?thesis by blast
qed

lemma lifecycle_without_keys:
  assumes "u_keys c = None" "storedKeys c = []"
  shows "\<exists>c1 c2.
           disconnectedCallback c = (Inr (), c1) \<and> u_disconnected c1 = Some True \<and>
           (\<forall>e \<in> set (storedEvents c). e \<notin> set (events c1)) \<and>
           connectedCallback c1 = (Inr (), c2) \<and> u_disconnected c2 = Some False \<and>
           events c2 = events c1 @ storedEvents c"
proof -
  let ?c0 = "c\<lparr>u_disconnected := Some True\<rparr>"
  let ?c1 = "?c0\<lparr>events := fold vent_off (storedEvents c) (events c)\<rparr>"
  have d: "disconnectedCallback c = (Inr (), ?c1)"
    using undelegate_without_keys[of ?c0] assms
    by (simp add: disconnectedCallback_def storedEvents_def storedKeys_def)
  let ?c2' = "?c1\<lparr>events := events ?c1 @ storedEvents c\<rparr>"
  have g: "delegateGlobalEvents ?c1 = (Inr (), ?c2')"
    using delegate_without_keys[of ?c1] assms by (simp add: storedEvents_def storedKeys_def)
  let ?c2 = "(if \<not> u_rendered ?c2' then render (?c2'\<lparr>u_disconnected := Some False\<rparr>)
              else ?c2'\<lparr>u_disconnected := Some False\<rparr>)"
  have cc: "connectedCallback ?c1 = (Inr (), ?c2)"
    by (simp add: connectedCallback_def g Let_def)
  have "u_disconnected ?c1 = Some True \<and>
           (\<forall>e \<in> set (storedEvents c). e \<notin> set (events ?c1)) \<and>
           u_disconnected ?c2 = Some False \<and>
           events ?c2 = events ?c1 @ storedEvents c"
    by (simp add: vent_off_removes render_def)
  with d cc show ?thesis by blast
qed

text \<open>
  Claim C8 at a component that has stored a global key listener and has no Keys
  instance. \<open>_delegateEvents\<close> stores the listener and then throws a TypeError from
  \<open>delegateGlobalEvents\<close>, and so do \<open>disconnectedCallback\<close> and the
  \<open>connectedCallback\<close> that follows it: the stored key listener is attached nowhere, and
  the component stays marked as disconnected.
\<close>

theorem global_keys_without_instance:
  "u_delegateEvents [escapeEntry] plainComponent = (Inl TypeError, keyOnlyComponent) \<and>
   delegateGlobalEvents keyOnlyComponent = (Inl TypeError, keyOnlyComponent) \<and>
   disconnectedCallback keyOnlyComponent =
     (Inl TypeError, keyOnlyComponent\<lparr>u_disconnected := Some True\<rparr>) \<and>
   connectedCallback (keyOnlyComponent\<lparr>u_disconnected := Some True\<rparr>) =
     (Inl TypeError, keyOnlyComponent\<lparr>u_disconnected := Some True\<rparr>) \<and>
   u_globalKeys keyOnlyComponent = Some [escapeKey] \<and>
   u_keys (snd (connectedCallback (keyOnlyComponent\<lparr>u_disconnected := Some True\<rparr>))) = None"
  by (simp add: keyOnlyComponent_def plainComponent_def delegateGlobalEvents_def
      undelegateGlobalEvents_def connectedCallback_def disconnectedCallback_def Let_def
      u_delegateEvents_def delegateEvent_def escapeEntry_def escapeKey_def)

section \<open>Properties of the enumerated setters\<close>




lemma getter_settled:
  "x = Undefined \<or> settled u values d x \<Longrightarrow> settled u values d (js_or x d)"
  by (auto simp: js_or_def settled_def)

























lemmas strict_eval = strictUtils_def exampleString_def toLowerCase_def toUpperCase_def
  lower_char_def upper_char_def upper_letters_def lower_letters_def


text \<open>
  The \<open>variant\<close> setter throws whenever it has stored a new value: its callback ends
  with \<open>self._updateLabel()\<close>.
\<close>

lemma variant_setter_throws:
  "fst (set_variant strictUtils (String ''Quiet'') plainButton) = Inl ReferenceError"
  by (simp add: set_variant_def Let_def u_updateProperty_def variantChanged_def u_updateLabel_def
      u_reflectAttribute_def setAttribute_def getAttribute_def isNameStartChar_def isNameChar_def
      strict_eval variant_values_def variant_DEFAULT_def variant_CUSTOM_def variant_ACTION_def
      variant_QUIET_ACTION_def js_or_def js_and_def VARIANT_MAP_def plainButton_def
      plainComponent_def button.defs component.defs)

section \<open>Classes and messages\<close>















section \<open>Sharing the code of a playground\<close>




























lemmas playground_eval = share_def PROPERTIES_def playground_property_def demoPlayground_def
  emptyPlayground_def playground.defs component.defs u_compress_def toyLibs_def Let_def
  array_toString_def




text \<open>The query of the example, with the stand-in functions.\<close>

lemma share_demo:
  "share toyLibs demoPlayground =
     ''?livereload=true&screen=vertical&code=9,60,98,62,104,105,60,47,98,62&''"
  by (simp add: playground_eval string_of_nat.simps digit_char_def)

end
